theory Spec2Isabelle
  imports Complex_Main "HOL-Library.Word"
begin

unbundle bit_operations_syntax

section \<open>Values of the program\<close>

text \<open>
  The client of \<^verbatim>\<open>bleak/backends/corebluetooth/client.py\<close> and the server base class of
  \<^verbatim>\<open>bleak/backends/server.py\<close>. Python strings are modelled as \<open>string\<close> and are taken
  to be ASCII text, as UUID strings and device identifiers are; \<open>bytes\<close>, \<open>bytearray\<close>
  and \<open>NSData\<close> are lists of octets; Python integers are \<open>int\<close>.
\<close>

type_synonym byte = "8 word"

text \<open>A notification callback is opaque to the client: only its identity is kept.\<close>

type_synonym callback = nat

text \<open>
  Every exception the code can raise is a value: \<open>BleakError\<close> with its message,
  Python's \<open>IndexError\<close>, and \<open>NativeError\<close> for anything raised inside the
  platform layer (the delegates and Foundation), which the client never catches.
\<close>

datatype error = BleakError string | IndexError | NativeError string

subsection \<open>Strings\<close>

text \<open>\<^verbatim>\<open>str.upper()\<close> on ASCII text: the letters a to z move to A to Z.\<close>

definition upper_char :: "char \<Rightarrow> char" where
  "upper_char c =
     (let n = (of_char c :: nat) in if 97 \<le> n \<and> n \<le> 122 then char_of (n - 32) else c)"

definition upper :: "string \<Rightarrow> string" where
  "upper s = map upper_char s"

text \<open>\<^verbatim>\<open>"{}".format(n)\<close> for an integer: its decimal digits, with a minus sign if negative.\<close>

definition digit_char :: "nat \<Rightarrow> char" where
  "digit_char d = char_of (48 + d)"

function format_nat :: "nat \<Rightarrow> string" where
  "format_nat n = (if n < 10 then [digit_char n] else format_nat (n div 10) @ [digit_char (n mod 10)])"
  by pat_completeness auto
termination
  by (relation "measure id") auto

definition format_int :: "int \<Rightarrow> string" where
  "format_int i = (if i < 0 then CHR ''-'' # format_nat (nat (- i)) else format_nat (nat i))"

text \<open>
  \<^verbatim>\<open>format(x, 'x')\<close> for an octet: lower-case hexadecimal without padding, so one or
  two characters.
\<close>

definition hex_char :: "nat \<Rightarrow> char" where
  "hex_char d = (if d < 10 then char_of (48 + d) else char_of (87 + d))"

definition format_x :: "byte \<Rightarrow> string" where
  "format_x b =
     (if unat b < 16 then [hex_char (unat b)]
      else [hex_char (unat b div 16), hex_char (unat b mod 16)])"

text \<open>\<^verbatim>\<open>int.from_bytes(bs, byteorder='big')\<close> and \<^verbatim>\<open>byteorder='little'\<close>.\<close>

definition from_bytes_big :: "byte list \<Rightarrow> int" where
  "from_bytes_big bs = foldl (\<lambda>acc b. acc * 256 + uint b) 0 bs"

definition from_bytes_little :: "byte list \<Rightarrow> int" where
  "from_bytes_little bs = foldr (\<lambda>b acc. uint b + 256 * acc) bs 0"

subsection \<open>Native objects\<close>

text \<open>
  The CoreBluetooth objects the delegates hand to the client. The client reads only
  what is listed here; \<open>ident\<close> fields stand for object identity.
\<close>

record cb_peripheral =
  peripheral_identifier :: string
  peripheral_name :: "string option"

record cb_service =
  service_ident :: nat
  service_UUID :: string

record cb_characteristic =
  characteristic_ident :: nat
  characteristic_UUID :: string

record cb_descriptor =
  descriptor_ident :: nat
  descriptor_handle :: int

text \<open>One entry of the delegate's \<^verbatim>\<open>advertisement_data_list\<close>: a dictionary from key to data.\<close>

type_synonym advertisement_data = "string \<rightharpoonup> byte list"

text \<open>
  \<^verbatim>\<open>BLEDevice(address, name, details, manufacturer_data=...)\<close>; the manufacturer
  dictionary has at most one entry.
\<close>

record BLEDevice =
  dev_address :: string
  dev_name :: string
  details :: cb_peripheral
  manufacturer_data :: "(int \<times> string) list"

section \<open>The platform layer\<close>

text \<open>
  The delegates behind \<^verbatim>\<open>self.app.central_manager_delegate\<close> and Foundation's
  \<^verbatim>\<open>CBUUID\<close> are collaborators of the client, so they are a parameter of every
  operation: one field for each call the client makes, giving the value the call returns
  or the exception it raises. \<open>scanForPeripherals\<close> returns the peripherals together
  with the \<^verbatim>\<open>advertisement_data_list\<close> the delegate holds after the scan.
  \<open>CBUUID_data\<close> is \<^verbatim>\<open>CBUUID.alloc().initWithString_(s).data()\<close> read as octets.
\<close>

record native =
  scanForPeripherals :: "real \<Rightarrow> error + (cb_peripheral list \<times> advertisement_data list)"
  connect_peripheral :: "cb_peripheral \<Rightarrow> error + unit"
  disconnect_peripheral :: "error + unit"
  discoverServices :: "error + cb_service list"
  discoverCharacteristics :: "cb_service \<Rightarrow> error + cb_characteristic list"
  discoverDescriptors :: "cb_characteristic \<Rightarrow> error + cb_descriptor list"
  readCharacteristic :: "cb_characteristic \<Rightarrow> bool \<Rightarrow> error + byte list"
  readDescriptor :: "cb_descriptor \<Rightarrow> bool \<Rightarrow> error + byte list"
  writeCharacteristic_value :: "cb_characteristic \<Rightarrow> byte list \<Rightarrow> error + bool"
  writeDescriptor_value :: "cb_descriptor \<Rightarrow> byte list \<Rightarrow> error + bool"
  startNotify_cb :: "cb_characteristic \<Rightarrow> callback \<Rightarrow> error + bool"
  stopNotify :: "cb_characteristic \<Rightarrow> error + bool"
  CBUUID_data :: "string \<Rightarrow> error + byte list"

section \<open>UUID normalisation\<close>

text \<open>\<^verbatim>\<open>convert_uuid_to_int\<close>: the octets of the CBUUID, read big-endian.\<close>

definition convert_uuid_to_int :: "native \<Rightarrow> string \<Rightarrow> error + int" where
  "convert_uuid_to_int na u =
     (case CBUUID_data na u of
        Inl e \<Rightarrow> Inl e
      | Inr UUID_bytes \<Rightarrow> Inr (from_bytes_big UUID_bytes))"

definition test_uuid :: string where
  "test_uuid = ''0000FFFF-0000-1000-8000-00805F9B34FB''"

text \<open>\<^verbatim>\<open>is_uuid_16bit_compatible\<close>: the test UUID is converted first, then the argument.\<close>

definition is_uuid_16bit_compatible :: "native \<Rightarrow> string \<Rightarrow> error + bool" where
  "is_uuid_16bit_compatible na u =
     (case convert_uuid_to_int na test_uuid of
        Inl e \<Rightarrow> Inl e
      | Inr test_int \<Rightarrow>
          (case convert_uuid_to_int na u of
             Inl e \<Rightarrow> Inl e
           | Inr uuid_int \<Rightarrow> Inr (uuid_int = (uuid_int AND test_int))))"

text \<open>\<^verbatim>\<open>get_appropriate_uuid\<close>; the slice \<^verbatim>\<open>_uuid[4:8]\<close> is \<open>take 4 (drop 4 u)\<close>.\<close>

definition get_appropriate_uuid :: "native \<Rightarrow> string \<Rightarrow> error + string" where
  "get_appropriate_uuid na u =
     (if length u = 4 then Inr (upper u)
      else
        (case is_uuid_16bit_compatible na u of
           Inl e \<Rightarrow> Inl e
         | Inr compatible \<Rightarrow>
             if compatible then Inr (upper (take 4 (drop 4 u))) else Inr (upper u)))"

section \<open>The service collection\<close>

text \<open>
  Modelled from the spec: the wrapper classes \<^verbatim>\<open>BleakGATTServiceCoreBluetooth\<close>,
  \<^verbatim>\<open>BleakGATTCharacteristicCoreBluetooth\<close> and \<^verbatim>\<open>BleakGATTDescriptorCoreBluetooth\<close>
  are not part of the sources at hand. Each keeps the native object; a service and a
  characteristic own the UUID string of that object, a descriptor owns its numeric handle
  and the UUID of the characteristic it belongs to.
\<close>

record gatt_service =
  service_obj :: cb_service
  service_uuid :: string

record gatt_characteristic =
  characteristic_obj :: cb_characteristic
  characteristic_uuid :: string

record gatt_descriptor =
  descriptor_obj :: cb_descriptor
  handle :: int
  owner_uuid :: string

definition BleakGATTServiceCoreBluetooth :: "cb_service \<Rightarrow> gatt_service" where
  "BleakGATTServiceCoreBluetooth obj = \<lparr>service_obj = obj, service_uuid = service_UUID obj\<rparr>"

definition BleakGATTCharacteristicCoreBluetooth :: "cb_characteristic \<Rightarrow> gatt_characteristic" where
  "BleakGATTCharacteristicCoreBluetooth obj =
     \<lparr>characteristic_obj = obj, characteristic_uuid = characteristic_UUID obj\<rparr>"

definition BleakGATTDescriptorCoreBluetooth :: "cb_descriptor \<Rightarrow> string \<Rightarrow> gatt_descriptor" where
  "BleakGATTDescriptorCoreBluetooth obj cuuid =
     \<lparr>descriptor_obj = obj, handle = descriptor_handle obj, owner_uuid = cuuid\<rparr>"

text \<open>
  Modelled from the spec: \<^verbatim>\<open>BleakGATTServiceCollection\<close> is not part of the sources at
  hand. It is three mappings (UUID to service, UUID to characteristic, handle to
  descriptor) with an append-only mutation interface, and a later write under a key
  that is already present wins. The mappings are association lists with the newest entry
  first, so \<open>map_of\<close> finds the latest write.
\<close>

record BleakGATTServiceCollection =
  services_index :: "(string \<times> gatt_service) list"
  characteristics_index :: "(string \<times> gatt_characteristic) list"
  descriptors_index :: "(int \<times> gatt_descriptor) list"

definition empty_collection :: BleakGATTServiceCollection where
  "empty_collection = \<lparr>services_index = [], characteristics_index = [], descriptors_index = []\<rparr>"

definition add_service :: "BleakGATTServiceCollection \<Rightarrow> gatt_service \<Rightarrow> BleakGATTServiceCollection" where
  "add_service c sv = c\<lparr>services_index := (service_uuid sv, sv) # services_index c\<rparr>"

definition add_characteristic ::
  "BleakGATTServiceCollection \<Rightarrow> gatt_characteristic \<Rightarrow> BleakGATTServiceCollection" where
  "add_characteristic c ch =
     c\<lparr>characteristics_index := (characteristic_uuid ch, ch) # characteristics_index c\<rparr>"

definition add_descriptor ::
  "BleakGATTServiceCollection \<Rightarrow> gatt_descriptor \<Rightarrow> BleakGATTServiceCollection" where
  "add_descriptor c d = c\<lparr>descriptors_index := (handle d, d) # descriptors_index c\<rparr>"

text \<open>
  What a caller passes to \<^verbatim>\<open>get_characteristic\<close>: a UUID string, or the coroutine
  object that a call of \<^verbatim>\<open>get_appropriate_uuid\<close> returns when it is not awaited (it
  holds the argument of the call and has computed nothing).
\<close>

datatype uuid_arg = UuidStr string | Coroutine string

text \<open>
  Modelled from the spec: the lookup is an exact match on the UUID key. A coroutine
  object is not a UUID string, so it matches no key.
\<close>

fun get_characteristic :: "BleakGATTServiceCollection \<Rightarrow> uuid_arg \<Rightarrow> gatt_characteristic option" where
  "get_characteristic c (UuidStr k) = map_of (characteristics_index c) k"
| "get_characteristic c (Coroutine u) = None"

definition get_descriptor :: "BleakGATTServiceCollection \<Rightarrow> int \<Rightarrow> gatt_descriptor option" where
  "get_descriptor c h = map_of (descriptors_index c) h"

text \<open>
  \<^verbatim>\<open>"{}".format(_uuid)\<close>: a string is inserted as it is; a coroutine object prints as
  its \<open>repr\<close>, of which the memory address is left out here.
\<close>

fun format_uuid_arg :: "uuid_arg \<Rightarrow> string" where
  "format_uuid_arg (UuidStr k) = k"
| "format_uuid_arg (Coroutine u) = ''<coroutine object BleakClientCoreBluetooth.get_appropriate_uuid>''"

section \<open>The client\<close>

text \<open>
  What can be observed of a run: each call to a delegate, in order, and each mutation of
  the service collection.
\<close>

datatype event =
    ScanForPeripherals real
  | ConnectPeripheral cb_peripheral
  | DisconnectPeripheral
  | DiscoverServices
  | DiscoverCharacteristics cb_service
  | DiscoverDescriptors cb_characteristic
  | ReadCharacteristic cb_characteristic bool
  | ReadDescriptor cb_descriptor bool
  | WriteCharacteristic cb_characteristic "byte list"
  | WriteDescriptor cb_descriptor "byte list"
  | StartNotify cb_characteristic callback
  | StopNotify cb_characteristic
  | AddService gatt_service
  | AddCharacteristic gatt_characteristic
  | AddDescriptor gatt_descriptor

fun is_adapter_call :: "event \<Rightarrow> bool" where
  "is_adapter_call (AddService sv) = False"
| "is_adapter_call (AddCharacteristic ch) = False"
| "is_adapter_call (AddDescriptor d) = False"
| "is_adapter_call e = True"

text \<open>
  The attributes of \<^verbatim>\<open>BleakClientCoreBluetooth\<close>: \<open>device_info\<close> is
  \<^verbatim>\<open>_device_info\<close>, \<open>cached_services\<close> is \<^verbatim>\<open>_services\<close>, \<open>services_resolved\<close> is
  \<^verbatim>\<open>_services_resolved\<close>. The attributes \<^verbatim>\<open>_requester\<close> and \<^verbatim>\<open>_callbacks\<close> are
  never read or written after construction and are left out. \<open>isConnected\<close> is the
  flag of the central manager delegate that \<^verbatim>\<open>is_connected\<close> reads, and \<open>trace\<close>
  is the list of events so far.
\<close>

record client =
  address :: string
  device_info :: "cb_peripheral option"
  cached_services :: "BleakGATTServiceCollection option"
  services :: BleakGATTServiceCollection
  services_resolved :: bool
  isConnected :: bool
  trace :: "event list"

text \<open>
  \<^verbatim>\<open>__init__\<close>. Modelled from the spec: the base class \<^verbatim>\<open>BaseBleakClient\<close> is not
  part of the sources at hand; as the server base class does, it creates the empty
  service collection \<^verbatim>\<open>self.services\<close>, and a new client is not connected.
\<close>

definition BleakClientCoreBluetooth :: "string \<Rightarrow> client" where
  "BleakClientCoreBluetooth a =
     \<lparr>address = a, device_info = None, cached_services = None, services = empty_collection,
      services_resolved = False, isConnected = False, trace = []\<rparr>"

definition record_event :: "event \<Rightarrow> client \<Rightarrow> client" where
  "record_event e s = s\<lparr>trace := trace s @ [e]\<rparr>"

definition services_add_service :: "gatt_service \<Rightarrow> client \<Rightarrow> client" where
  "services_add_service sv s =
     record_event (AddService sv) (s\<lparr>services := add_service (services s) sv\<rparr>)"

definition services_add_characteristic :: "gatt_characteristic \<Rightarrow> client \<Rightarrow> client" where
  "services_add_characteristic ch s =
     record_event (AddCharacteristic ch) (s\<lparr>services := add_characteristic (services s) ch\<rparr>)"

definition services_add_descriptor :: "gatt_descriptor \<Rightarrow> client \<Rightarrow> client" where
  "services_add_descriptor d s =
     record_event (AddDescriptor d) (s\<lparr>services := add_descriptor (services s) d\<rparr>)"

subsection \<open>Scanning and connecting\<close>

text \<open>
  The loop of \<^verbatim>\<open>scan_for_devices\<close> over \<^verbatim>\<open>enumerate(peripherals)\<close>. Reading
  \<^verbatim>\<open>advertisement_data_list[i]\<close> beyond the end of the list raises \<open>IndexError\<close>. The
  manufacturer data is \<open>None\<close> when the key is missing, and the test
  \<^verbatim>\<open>if manufacturer_binary_data:\<close> also fails on empty data; the device is appended
  inside that branch only.
\<close>

definition manufacturer_key :: string where
  "manufacturer_key = ''kCBAdvDataManufacturerData''"

definition make_device :: "cb_peripheral \<Rightarrow> byte list \<Rightarrow> BLEDevice" where
  "make_device peripheral manufacturer_binary_data =
     (let addr = peripheral_identifier peripheral;
          name = (case peripheral_name peripheral of
                    None \<Rightarrow> ''Unknown''
                  | Some n \<Rightarrow> if n = [] then ''Unknown'' else n);
          manufacturer_id = from_bytes_little (take 2 manufacturer_binary_data);
          manufacturer_value =
            concat (map (\<lambda>x. if length (format_x x) = 2 then format_x x else ''0'' @ format_x x)
                        (drop 2 manufacturer_binary_data))
      in \<lparr>dev_address = addr, dev_name = name, details = peripheral,
          manufacturer_data = [(manufacturer_id, manufacturer_value)]\<rparr>)"

fun scan_loop ::
  "advertisement_data list \<Rightarrow> nat \<Rightarrow> cb_peripheral list \<Rightarrow> BLEDevice list \<Rightarrow> error + BLEDevice list" where
  "scan_loop ads i [] found = Inr found"
| "scan_loop ads i (peripheral # rest) found =
     (if i < length ads then
        (case (ads ! i) manufacturer_key of
           None \<Rightarrow> scan_loop ads (Suc i) rest found
         | Some manufacturer_binary_data \<Rightarrow>
             if manufacturer_binary_data = [] then scan_loop ads (Suc i) rest found
             else scan_loop ads (Suc i) rest (found @ [make_device peripheral manufacturer_binary_data]))
      else Inl IndexError)"

definition scan_for_devices :: "real \<Rightarrow> native \<Rightarrow> client \<Rightarrow> (error + BLEDevice list) \<times> client" where
  "scan_for_devices timeout na s =
     (let s1 = record_event (ScanForPeripherals timeout) s in
      case scanForPeripherals na timeout of
        Inl e \<Rightarrow> (Inl e, s1)
      | Inr (peripherals, ads) \<Rightarrow> (scan_loop ads 0 peripherals [], s1))"

subsection \<open>Discovery\<close>

text \<open>The three nested loops of \<^verbatim>\<open>get_services\<close>, innermost first.\<close>

fun descriptors_loop :: "string \<Rightarrow> cb_descriptor list \<Rightarrow> client \<Rightarrow> client" where
  "descriptors_loop cUUID [] s = s"
| "descriptors_loop cUUID (descriptor # rest) s =
     descriptors_loop cUUID rest
       (services_add_descriptor (BleakGATTDescriptorCoreBluetooth descriptor cUUID) s)"

fun characteristics_loop :: "native \<Rightarrow> cb_characteristic list \<Rightarrow> client \<Rightarrow> (error + unit) \<times> client" where
  "characteristics_loop na [] s = (Inr (), s)"
| "characteristics_loop na (characteristic # rest) s =
     (let s1 = record_event (DiscoverDescriptors characteristic) s in
      case discoverDescriptors na characteristic of
        Inl e \<Rightarrow> (Inl e, s1)
      | Inr descriptors \<Rightarrow>
          characteristics_loop na rest
            (descriptors_loop (characteristic_UUID characteristic) descriptors
               (services_add_characteristic (BleakGATTCharacteristicCoreBluetooth characteristic) s1)))"

fun services_loop :: "native \<Rightarrow> cb_service list \<Rightarrow> client \<Rightarrow> (error + unit) \<times> client" where
  "services_loop na [] s = (Inr (), s)"
| "services_loop na (service # rest) s =
     (let s1 = record_event (DiscoverCharacteristics service) s in
      case discoverCharacteristics na service of
        Inl e \<Rightarrow> (Inl e, s1)
      | Inr characteristics \<Rightarrow>
          (case characteristics_loop na characteristics
                  (services_add_service (BleakGATTServiceCoreBluetooth service) s1) of
             (Inl e, s2) \<Rightarrow> (Inl e, s2)
           | (Inr u, s2) \<Rightarrow> services_loop na rest s2))"

text \<open>
  \<^verbatim>\<open>get_services\<close>: the early return tests \<^verbatim>\<open>self._services\<close>; the collection
  that is filled and returned is \<^verbatim>\<open>self.services\<close>, and the only attribute assigned
  at the end is \<^verbatim>\<open>_services_resolved\<close>.
\<close>

definition get_services :: "native \<Rightarrow> client \<Rightarrow> (error + BleakGATTServiceCollection) \<times> client" where
  "get_services na s =
     (case cached_services s of
        Some c \<Rightarrow> (Inr c, s)
      | None \<Rightarrow>
          (let s1 = record_event DiscoverServices s in
           case discoverServices na of
             Inl e \<Rightarrow> (Inl e, s1)
           | Inr svcs \<Rightarrow>
               (case services_loop na svcs s1 of
                  (Inl e, s2) \<Rightarrow> (Inl e, s2)
                | (Inr u, s2) \<Rightarrow>
                    (let s3 = s2\<lparr>services_resolved := True\<rparr> in (Inr (services s3), s3)))))"

text \<open>
  \<^verbatim>\<open>connect\<close> and \<^verbatim>\<open>disconnect\<close>. Modelled from the spec: the central manager
  delegate is not part of the sources at hand; its flag \<open>isConnected\<close> is set when its
  \<^verbatim>\<open>connect_\<close> returns and cleared when its \<^verbatim>\<open>disconnect\<close> returns.
\<close>

definition connect :: "native \<Rightarrow> client \<Rightarrow> (error + bool) \<times> client" where
  "connect na s =
     (case scan_for_devices 10 na s of
        (Inl e, s1) \<Rightarrow> (Inl e, s1)
      | (Inr devices, s1) \<Rightarrow>
          (case filter (\<lambda>x. upper (dev_address x) = upper (address s1)) devices of
             [] \<Rightarrow> (Inl (BleakError (''Device with address '' @ address s1 @ '' was not found'')), s1)
           | d # others \<Rightarrow>
               (let s2 = record_event (ConnectPeripheral (details d))
                           (s1\<lparr>device_info := Some (details d)\<rparr>) in
                case connect_peripheral na (details d) of
                  Inl e \<Rightarrow> (Inl e, s2)
                | Inr u \<Rightarrow>
                    (case get_services na (s2\<lparr>isConnected := True\<rparr>) of
                       (Inl e, s3) \<Rightarrow> (Inl e, s3)
                     | (Inr c, s3) \<Rightarrow> (Inr True, s3)))))"

definition disconnect :: "native \<Rightarrow> client \<Rightarrow> (error + bool) \<times> client" where
  "disconnect na s =
     (let s1 = record_event DisconnectPeripheral s in
      case disconnect_peripheral na of
        Inl e \<Rightarrow> (Inl e, s1)
      | Inr u \<Rightarrow> (Inr True, s1\<lparr>isConnected := False\<rparr>))"

definition is_connected :: "client \<Rightarrow> bool" where
  "is_connected s = isConnected s"

subsection \<open>Reading, writing and notifications\<close>

text \<open>
  Each operation looks its target up in \<^verbatim>\<open>self.services\<close>; \<^verbatim>\<open>if not x: raise\<close>
  is the branch \<open>None\<close>. The octets read are returned as they came.
\<close>

definition read_gatt_char :: "native \<Rightarrow> string \<Rightarrow> bool \<Rightarrow> client \<Rightarrow> (error + byte list) \<times> client" where
  "read_gatt_char na u use_cached s =
     (case get_appropriate_uuid na u of
        Inl e \<Rightarrow> (Inl e, s)
      | Inr k \<Rightarrow>
          (case get_characteristic (services s) (UuidStr k) of
             None \<Rightarrow> (Inl (BleakError (''Characteristic '' @ k @ '' was not found!'')), s)
           | Some characteristic \<Rightarrow>
               (let s1 = record_event (ReadCharacteristic (characteristic_obj characteristic) use_cached) s in
                case readCharacteristic na (characteristic_obj characteristic) use_cached of
                  Inl e \<Rightarrow> (Inl e, s1)
                | Inr v \<Rightarrow> (Inr v, s1))))"

definition read_gatt_descriptor :: "native \<Rightarrow> int \<Rightarrow> bool \<Rightarrow> client \<Rightarrow> (error + byte list) \<times> client" where
  "read_gatt_descriptor na h use_cached s =
     (case get_descriptor (services s) h of
        None \<Rightarrow> (Inl (BleakError (''Descriptor '' @ format_int h @ '' was not found!'')), s)
      | Some descriptor \<Rightarrow>
          (let s1 = record_event (ReadDescriptor (descriptor_obj descriptor) use_cached) s in
           case readDescriptor na (descriptor_obj descriptor) use_cached of
             Inl e \<Rightarrow> (Inl e, s1)
           | Inr v \<Rightarrow> (Inr v, s1)))"

text \<open>
  \<^verbatim>\<open>write_gatt_char\<close>: the parameter \<^verbatim>\<open>response\<close> does not occur in the body; the
  delegate is called with the native characteristic and the data.
\<close>

definition write_gatt_char :: "native \<Rightarrow> string \<Rightarrow> byte list \<Rightarrow> bool \<Rightarrow> client \<Rightarrow> (error + unit) \<times> client" where
  "write_gatt_char na u data response s =
     (case get_appropriate_uuid na u of
        Inl e \<Rightarrow> (Inl e, s)
      | Inr k \<Rightarrow>
          (case get_characteristic (services s) (UuidStr k) of
             None \<Rightarrow> (Inl (BleakError (''Characteristic '' @ k @ '' was not found!'')), s)
           | Some characteristic \<Rightarrow>
               (let s1 = record_event (WriteCharacteristic (characteristic_obj characteristic) data) s in
                case writeCharacteristic_value na (characteristic_obj characteristic) data of
                  Inl e \<Rightarrow> (Inl e, s1)
                | Inr success \<Rightarrow> (Inr (), s1))))"

definition write_gatt_descriptor :: "native \<Rightarrow> int \<Rightarrow> byte list \<Rightarrow> client \<Rightarrow> (error + unit) \<times> client" where
  "write_gatt_descriptor na h data s =
     (case get_descriptor (services s) h of
        None \<Rightarrow> (Inl (BleakError (''Descriptor '' @ format_int h @ '' was not found!'')), s)
      | Some descriptor \<Rightarrow>
          (let s1 = record_event (WriteDescriptor (descriptor_obj descriptor) data) s in
           case writeDescriptor_value na (descriptor_obj descriptor) data of
             Inl e \<Rightarrow> (Inl e, s1)
           | Inr success \<Rightarrow> (Inr (), s1)))"

definition start_notify :: "native \<Rightarrow> string \<Rightarrow> callback \<Rightarrow> client \<Rightarrow> (error + unit) \<times> client" where
  "start_notify na u cb s =
     (case get_appropriate_uuid na u of
        Inl e \<Rightarrow> (Inl e, s)
      | Inr k \<Rightarrow>
          (case get_characteristic (services s) (UuidStr k) of
             None \<Rightarrow> (Inl (BleakError (''Characteristic '' @ k @ '' not found!'')), s)
           | Some characteristic \<Rightarrow>
               (let s1 = record_event (StartNotify (characteristic_obj characteristic) cb) s in
                case startNotify_cb na (characteristic_obj characteristic) cb of
                  Inl e \<Rightarrow> (Inl e, s1)
                | Inr success \<Rightarrow> (Inr (), s1))))"

text \<open>
  \<^verbatim>\<open>stop_notify\<close> calls \<^verbatim>\<open>self.get_appropriate_uuid(_uuid)\<close> without \<^verbatim>\<open>await\<close>, so
  the value it looks up and formats is the coroutine object.
\<close>

definition stop_notify :: "native \<Rightarrow> string \<Rightarrow> client \<Rightarrow> (error + unit) \<times> client" where
  "stop_notify na u s =
     (let k = Coroutine u in
      case get_characteristic (services s) k of
        None \<Rightarrow> (Inl (BleakError (''Characteristic '' @ format_uuid_arg k @ '' not found!'')), s)
      | Some characteristic \<Rightarrow>
          (let s1 = record_event (StopNotify (characteristic_obj characteristic)) s in
           case stopNotify na (characteristic_obj characteristic) of
             Inl e \<Rightarrow> (Inl e, s1)
           | Inr success \<Rightarrow> (Inr (), s1)))"

section \<open>The server base class\<close>

text \<open>
  \<^verbatim>\<open>BaseBleakServer\<close>: \<^verbatim>\<open>start\<close> and \<^verbatim>\<open>stop\<close> are abstract, so a backend is a
  parameter giving both as functions on its own state that return a value or raise. The
  server keeps the list of calls made to the two methods. The attributes \<^verbatim>\<open>loop\<close> and
  \<^verbatim>\<open>services\<close> set by \<^verbatim>\<open>__init__\<close> are not used by the methods below and are left out.
\<close>

datatype server_call = StartCalled | StopCalled

record 'b backend =
  start_impl :: "'b \<Rightarrow> (error + bool) \<times> 'b"
  stop_impl :: "'b \<Rightarrow> (error + bool) \<times> 'b"

record 'b server =
  backend_state :: 'b
  server_calls :: "server_call list"

definition start :: "'b backend \<Rightarrow> 'b server \<Rightarrow> (error + bool) \<times> 'b server" where
  "start be sv =
     (case start_impl be (backend_state sv) of
        (r, b) \<Rightarrow> (r, sv\<lparr>backend_state := b, server_calls := server_calls sv @ [StartCalled]\<rparr>))"

definition stop :: "'b backend \<Rightarrow> 'b server \<Rightarrow> (error + bool) \<times> 'b server" where
  "stop be sv =
     (case stop_impl be (backend_state sv) of
        (r, b) \<Rightarrow> (r, sv\<lparr>backend_state := b, server_calls := server_calls sv @ [StopCalled]\<rparr>))"

text \<open>
  \<^verbatim>\<open>__aenter__\<close> awaits \<^verbatim>\<open>start()\<close> and returns the server itself; \<^verbatim>\<open>__aexit__\<close>
  awaits \<^verbatim>\<open>stop()\<close> whatever exception information it is given and returns \<open>None\<close>,
  which is false: it does not suppress the exception.
\<close>

definition aenter :: "'b backend \<Rightarrow> 'b server \<Rightarrow> (error + unit) \<times> 'b server" where
  "aenter be sv = (case start be sv of (Inl e, sv1) \<Rightarrow> (Inl e, sv1) | (Inr ok, sv1) \<Rightarrow> (Inr (), sv1))"

definition aexit :: "'b backend \<Rightarrow> error option \<Rightarrow> 'b server \<Rightarrow> (error + bool) \<times> 'b server" where
  "aexit be exc sv = (case stop be sv of (Inl e, sv1) \<Rightarrow> (Inl e, sv1) | (Inr ok, sv1) \<Rightarrow> (Inr False, sv1))"

text \<open>
  Python's \<^verbatim>\<open>async with server: body\<close>: enter; run the body; on an exception call
  \<^verbatim>\<open>__aexit__\<close> with it and raise it again unless the result is true; otherwise call
  \<^verbatim>\<open>__aexit__\<close> with no exception. An exception raised by \<^verbatim>\<open>__aenter__\<close> or
  \<^verbatim>\<open>__aexit__\<close> itself propagates.
\<close>

definition async_with ::
  "'b backend \<Rightarrow> ('b server \<Rightarrow> (error + 'a) \<times> 'b server) \<Rightarrow> 'b server \<Rightarrow> (error + 'a option) \<times> 'b server" where
  "async_with be body sv =
     (case aenter be sv of
        (Inl e, sv1) \<Rightarrow> (Inl e, sv1)
      | (Inr u, sv1) \<Rightarrow>
          (case body sv1 of
             (Inl e, sv2) \<Rightarrow>
               (case aexit be (Some e) sv2 of
                  (Inl e', sv3) \<Rightarrow> (Inl e', sv3)
                | (Inr suppress, sv3) \<Rightarrow> if suppress then (Inr None, sv3) else (Inl e, sv3))
           | (Inr v, sv2) \<Rightarrow>
               (case aexit be None sv2 of
                  (Inl e', sv3) \<Rightarrow> (Inl e', sv3)
                | (Inr suppress, sv3) \<Rightarrow> (Inr (Some v), sv3))))"

section \<open>The specification's side\<close>

text \<open>
  The normaliser as the specification words it, over a reading \<open>octets\<close> of a UUID string
  as its octets: an input of length 4 is returned in upper case; otherwise, with
  \<open>uuid_int\<close> the big-endian integer of the input and \<open>base_int\<close> that of
  \<^verbatim>\<open>0000FFFF-0000-1000-8000-00805F9B34FB\<close>, if \<open>uuid_int AND base_int = uuid_int\<close> the
  result is string characters 4 to 7 in upper case, and else the whole input in upper case.
\<close>

definition normalize_spec :: "(string \<Rightarrow> byte list) \<Rightarrow> string \<Rightarrow> string" where
  "normalize_spec octets u =
     (if length u = 4 then upper u
      else
        (let uuid_int = from_bytes_big (octets u);
             base_int = from_bytes_big (octets ''0000FFFF-0000-1000-8000-00805F9B34FB'')
         in if uuid_int AND base_int = uuid_int then upper (take 4 (drop 4 u))
            else upper u))"

text \<open>
  The order of discovery as the specification words it, given the lists the adapter
  returns: for each service in order, request its characteristics, then add the service;
  for each characteristic in order, request its descriptors, add the characteristic, then
  add each descriptor tagged with the UUID string of the characteristic.
\<close>

definition characteristic_steps :: "(cb_characteristic \<Rightarrow> cb_descriptor list) \<Rightarrow> cb_characteristic \<Rightarrow> event list" where
  "characteristic_steps descs c =
     DiscoverDescriptors c # AddCharacteristic (BleakGATTCharacteristicCoreBluetooth c) #
       map (\<lambda>d. AddDescriptor (BleakGATTDescriptorCoreBluetooth d (characteristic_UUID c))) (descs c)"

definition service_steps ::
  "(cb_service \<Rightarrow> cb_characteristic list) \<Rightarrow> (cb_characteristic \<Rightarrow> cb_descriptor list) \<Rightarrow> cb_service \<Rightarrow> event list" where
  "service_steps chars descs sv =
     DiscoverCharacteristics sv # AddService (BleakGATTServiceCoreBluetooth sv) #
       concat (map (characteristic_steps descs) (chars sv))"

definition discovery_order ::
  "cb_service list \<Rightarrow> (cb_service \<Rightarrow> cb_characteristic list) \<Rightarrow> (cb_characteristic \<Rightarrow> cb_descriptor list) \<Rightarrow> event list" where
  "discovery_order svcs chars descs = DiscoverServices # concat (map (service_steps chars descs) svcs)"

text \<open>What an event does to the collection, and the state after a list of events.\<close>

fun apply_event :: "BleakGATTServiceCollection \<Rightarrow> event \<Rightarrow> BleakGATTServiceCollection" where
  "apply_event c (AddService sv) = add_service c sv"
| "apply_event c (AddCharacteristic ch) = add_characteristic c ch"
| "apply_event c (AddDescriptor d) = add_descriptor c d"
| "apply_event c e = c"

definition perform :: "event \<Rightarrow> client \<Rightarrow> client" where
  "perform e s = record_event e (s\<lparr>services := apply_event (services s) e\<rparr>)"

definition replay :: "event list \<Rightarrow> client \<Rightarrow> client" where
  "replay es s = foldl (\<lambda>t e. perform e t) s es"

section \<open>Example data\<close>

text \<open>
  A reading of UUID text for the examples: the hexadecimal digits of the string, dashes
  skipped, two digits to the octet. It stands in for \<^verbatim>\<open>CBUUID\<close> there.
\<close>

definition hex_value :: "char \<Rightarrow> nat option" where
  "hex_value c =
     (let n = (of_char c :: nat) in
      if 48 \<le> n \<and> n \<le> 57 then Some (n - 48)
      else if 65 \<le> n \<and> n \<le> 70 then Some (n - 55)
      else if 97 \<le> n \<and> n \<le> 102 then Some (n - 87)
      else None)"

fun hex_octets :: "string \<Rightarrow> byte list option" where
  "hex_octets [] = Some []"
| "hex_octets [c] = None"
| "hex_octets (a # b # rest) =
     (case (hex_value a, hex_value b, hex_octets rest) of
        (Some x, Some y, Some bs) \<Rightarrow> Some (of_nat (16 * x + y) # bs)
      | other \<Rightarrow> None)"

definition uuid_text_data :: "string \<Rightarrow> error + byte list" where
  "uuid_text_data u =
     (case hex_octets (filter (\<lambda>c. c \<noteq> CHR ''-'') u) of
        Some bs \<Rightarrow> Inr bs
      | None \<Rightarrow> Inl (NativeError ''invalid UUID string''))"

definition uuid_text_octets :: "string \<Rightarrow> byte list" where
  "uuid_text_octets u = (case uuid_text_data u of Inr bs \<Rightarrow> bs | Inl e \<Rightarrow> [])"

text \<open>
  A peripheral with one service \<^verbatim>\<open>180D\<close>, one characteristic \<^verbatim>\<open>2A37\<close> and one
  descriptor with handle 42; a scan reports it with manufacturer data, and reports a
  second peripheral that advertises without any.
\<close>

definition heart_monitor :: cb_peripheral where
  "heart_monitor = \<lparr>peripheral_identifier = ''AB-01'', peripheral_name = Some ''HRM''\<rparr>"

definition silent_sensor :: cb_peripheral where
  "silent_sensor = \<lparr>peripheral_identifier = ''CD-02'', peripheral_name = None\<rparr>"

definition svc_180D :: cb_service where
  "svc_180D = \<lparr>service_ident = 1, service_UUID = ''180D''\<rparr>"

definition chr_2A37 :: cb_characteristic where
  "chr_2A37 = \<lparr>characteristic_ident = 2, characteristic_UUID = ''2A37''\<rparr>"

definition dsc_42 :: cb_descriptor where
  "dsc_42 = \<lparr>descriptor_ident = 3, descriptor_handle = 42\<rparr>"

definition example_characteristics :: "cb_service \<Rightarrow> cb_characteristic list" where
  "example_characteristics sv = (if sv = svc_180D then [chr_2A37] else [])"

definition example_descriptors :: "cb_characteristic \<Rightarrow> cb_descriptor list" where
  "example_descriptors c = (if c = chr_2A37 then [dsc_42] else [])"

definition example_native :: native where
  "example_native =
     \<lparr>scanForPeripherals =
        (\<lambda>t. Inr ([heart_monitor, silent_sensor],
                   [[manufacturer_key \<mapsto> [76, 0, 2, 21]], Map.empty])),
      connect_peripheral = (\<lambda>p. Inr ()),
      disconnect_peripheral = Inr (),
      discoverServices = Inr [svc_180D],
      discoverCharacteristics = (\<lambda>sv. Inr (example_characteristics sv)),
      discoverDescriptors = (\<lambda>c. Inr (example_descriptors c)),
      readCharacteristic = (\<lambda>c use_cached. Inr [6, 72]),
      readDescriptor = (\<lambda>d use_cached. Inr [1, 0]),
      writeCharacteristic_value = (\<lambda>c data. Inr True),
      writeDescriptor_value = (\<lambda>d data. Inr True),
      startNotify_cb = (\<lambda>c cb. Inr True),
      stopNotify = (\<lambda>c. Inr True),
      CBUUID_data = uuid_text_data\<rparr>"

text \<open>The collection and the client after discovery of that peripheral.\<close>

definition example_collection :: BleakGATTServiceCollection where
  "example_collection =
     \<lparr>services_index = [(''180D'', BleakGATTServiceCoreBluetooth svc_180D)],
      characteristics_index = [(''2A37'', BleakGATTCharacteristicCoreBluetooth chr_2A37)],
      descriptors_index = [(42, BleakGATTDescriptorCoreBluetooth dsc_42 ''2A37'')]\<rparr>"

definition discovered_client :: client where
  "discovered_client =
     \<lparr>address = ''ab-01'', device_info = Some heart_monitor, cached_services = None,
      services = example_collection, services_resolved = True, isConnected = True, trace = []\<rparr>"

text \<open>The same client after the link is gone: the collection is still filled.\<close>

definition disconnected_client :: client where
  "disconnected_client = discovered_client\<lparr>isConnected := False\<rparr>"

text \<open>
  A server backend whose \<^verbatim>\<open>start\<close> adds 1 to its state and whose \<^verbatim>\<open>stop\<close> adds 10, a
  new server on it, and two bodies for \<^verbatim>\<open>async with\<close>: one completes, one raises.
\<close>

definition example_backend :: "nat backend" where
  "example_backend = \<lparr>start_impl = (\<lambda>n. (Inr True, Suc n)), stop_impl = (\<lambda>n. (Inr True, n + 10))\<rparr>"

definition new_server :: "nat server" where
  "new_server = \<lparr>backend_state = 0, server_calls = []\<rparr>"

definition body_completes :: "nat server \<Rightarrow> (error + nat) \<times> nat server" where
  "body_completes sv = (Inr 5, sv)"

definition body_raises :: "nat server \<Rightarrow> (error + nat) \<times> nat server" where
  "body_raises sv = (Inl (BleakError ''boom''), sv)"

section \<open>UUID normalisation follows the three branches\<close>

text \<open>
  Claim C1. \<^verbatim>\<open>get_appropriate_uuid\<close> is the three-branch normaliser of the
  specification: an input of length 4 comes back in upper case; otherwise, when the
  platform reads the input and the base string as the octets \<open>octets\<close> gives, the result
  is characters 4 to 7 in upper case if the big-endian integer of the input ANDed with
  that of the base string is the integer itself, and the whole input in upper case if not.
\<close>

theorem get_appropriate_uuid_three_branches:
  assumes "length u \<noteq> 4 \<longrightarrow>
             CBUUID_data na u = Inr (octets u) \<and>
             CBUUID_data na ''0000FFFF-0000-1000-8000-00805F9B34FB'' =
               Inr (octets ''0000FFFF-0000-1000-8000-00805F9B34FB'')"
  shows "get_appropriate_uuid na u = Inr (normalize_spec octets u)"
proof (cases "length u = 4")
  case True
  then show ?thesis
    by (simp add: get_appropriate_uuid_def normalize_spec_def)
next
  case False
  with assms have data: "CBUUID_data na u = Inr (octets u)"
    and base: "CBUUID_data na test_uuid = Inr (octets test_uuid)"
    by (simp_all add: test_uuid_def)
  have "is_uuid_16bit_compatible na u =
          Inr (from_bytes_big (octets u) AND from_bytes_big (octets test_uuid) = from_bytes_big (octets u))"
    unfolding is_uuid_16bit_compatible_def convert_uuid_to_int_def data base
    by (simp add: eq_commute)
  with False show ?thesis
    by (simp add: get_appropriate_uuid_def normalize_spec_def test_uuid_def Let_def)
qed

theorem get_appropriate_uuid_three_branches_witness:
  "get_appropriate_uuid example_native ''00002a37-0000-1000-8000-00805f9b34fb'' =
     Inr (normalize_spec uuid_text_octets ''00002a37-0000-1000-8000-00805f9b34fb'')
   \<and> normalize_spec uuid_text_octets ''00002a37-0000-1000-8000-00805f9b34fb'' = ''2A37''
   \<and> length ''00002a37-0000-1000-8000-00805f9b34fb'' \<noteq> 4"
proof -
  have h: "length ''00002a37-0000-1000-8000-00805f9b34fb'' \<noteq> 4 \<longrightarrow>
             CBUUID_data example_native ''00002a37-0000-1000-8000-00805f9b34fb'' =
               Inr (uuid_text_octets ''00002a37-0000-1000-8000-00805f9b34fb'') \<and>
             CBUUID_data example_native ''0000FFFF-0000-1000-8000-00805F9B34FB'' =
               Inr (uuid_text_octets ''0000FFFF-0000-1000-8000-00805F9B34FB'')"
    by code_simp
  have v: "normalize_spec uuid_text_octets ''00002a37-0000-1000-8000-00805f9b34fb'' = ''2A37''"
    by code_simp
  have l: "length ''00002a37-0000-1000-8000-00805f9b34fb'' \<noteq> 4"
    by simp
  from get_appropriate_uuid_three_branches [OF h] v l show ?thesis
    by blast
qed

section \<open>Discovery\<close>

subsection \<open>The loops perform a list of events\<close>

lemma replay_Nil: "replay [] s = s"
  by (simp add: replay_def)

lemma replay_Cons: "replay (e # es) s = replay es (perform e s)"
  by (simp add: replay_def)

lemma replay_append: "replay (es @ fs) s = replay fs (replay es s)"
  by (simp add: replay_def)

lemma trace_perform: "trace (perform e s) = trace s @ [e]"
  by (simp add: perform_def record_event_def)

lemma services_perform: "services (perform e s) = apply_event (services s) e"
  by (simp add: perform_def record_event_def)

lemma cached_perform: "cached_services (perform e s) = cached_services s"
  by (simp add: perform_def record_event_def)

lemma trace_replay: "trace (replay es s) = trace s @ es"
  by (induction es arbitrary: s) (simp_all add: replay_Nil replay_Cons trace_perform)

lemma services_replay: "services (replay es s) = foldl apply_event (services s) es"
  by (induction es arbitrary: s) (simp_all add: replay_Nil replay_Cons services_perform)

lemma record_DiscoverServices: "record_event DiscoverServices s = perform DiscoverServices s"
  by (simp add: perform_def)

lemma record_DiscoverCharacteristics:
  "record_event (DiscoverCharacteristics sv) s = perform (DiscoverCharacteristics sv) s"
  by (simp add: perform_def)

lemma record_DiscoverDescriptors:
  "record_event (DiscoverDescriptors c) s = perform (DiscoverDescriptors c) s"
  by (simp add: perform_def)

lemma add_service_perform: "services_add_service sv s = perform (AddService sv) s"
  by (simp add: perform_def services_add_service_def)

lemma add_characteristic_perform: "services_add_characteristic ch s = perform (AddCharacteristic ch) s"
  by (simp add: perform_def services_add_characteristic_def)

lemma add_descriptor_perform: "services_add_descriptor d s = perform (AddDescriptor d) s"
  by (simp add: perform_def services_add_descriptor_def)

lemma descriptors_loop_replay:
  "descriptors_loop cUUID ds s =
     replay (map (\<lambda>d. AddDescriptor (BleakGATTDescriptorCoreBluetooth d cUUID)) ds) s"
  by (induction ds arbitrary: s) (simp_all add: replay_Nil replay_Cons add_descriptor_perform)

lemma characteristics_loop_replay:
  assumes "\<forall>c\<in>set cs. discoverDescriptors na c = Inr (descs c)"
  shows "characteristics_loop na cs s = (Inr (), replay (concat (map (characteristic_steps descs) cs)) s)"
  using assms
proof (induction cs arbitrary: s)
  case Nil
  show ?case by (simp add: replay_Nil)
next
  case (Cons c cs)
  from Cons.prems have here: "discoverDescriptors na c = Inr (descs c)"
    and rest: "\<forall>c\<in>set cs. discoverDescriptors na c = Inr (descs c)"
    by simp_all
  show ?case
    by (simp add: here Cons.IH [OF rest] characteristic_steps_def replay_Cons replay_append
        descriptors_loop_replay record_DiscoverDescriptors add_characteristic_perform)
qed

lemma services_loop_replay:
  assumes "\<forall>sv\<in>set svcs. discoverCharacteristics na sv = Inr (chars sv) \<and>
             (\<forall>c\<in>set (chars sv). discoverDescriptors na c = Inr (descs c))"
  shows "services_loop na svcs s = (Inr (), replay (concat (map (service_steps chars descs) svcs)) s)"
  using assms
proof (induction svcs arbitrary: s)
  case Nil
  show ?case by (simp add: replay_Nil)
next
  case (Cons sv svcs)
  from Cons.prems have here: "discoverCharacteristics na sv = Inr (chars sv)"
    and inner: "\<forall>c\<in>set (chars sv). discoverDescriptors na c = Inr (descs c)"
    and rest: "\<forall>sv\<in>set svcs. discoverCharacteristics na sv = Inr (chars sv) \<and>
             (\<forall>c\<in>set (chars sv). discoverDescriptors na c = Inr (descs c))"
    by simp_all
  show ?case
    by (simp add: here Cons.IH [OF rest] characteristics_loop_replay [OF inner] service_steps_def
        replay_Cons replay_append record_DiscoverCharacteristics add_service_perform)
qed

lemma get_services_replay:
  assumes "cached_services s = None"
    and "discoverServices na = Inr svcs"
    and "\<forall>sv\<in>set svcs. discoverCharacteristics na sv = Inr (chars sv) \<and>
             (\<forall>c\<in>set (chars sv). discoverDescriptors na c = Inr (descs c))"
  shows "get_services na s =
           (Inr (services (replay (discovery_order svcs chars descs) s)),
            (replay (discovery_order svcs chars descs) s)\<lparr>services_resolved := True\<rparr>)"
  by (simp add: get_services_def assms(1,2) services_loop_replay [OF assms(3)] discovery_order_def
      replay_Cons record_DiscoverServices Let_def)

subsection \<open>The order of discovery\<close>

text \<open>
  Claim C5. When no discovery call fails, \<^verbatim>\<open>get_services\<close> performs exactly the
  events of the specified order after the ones already made: the service list is
  requested; for each service in the order returned its characteristics are requested
  and then the service is added; for each characteristic in the order returned its
  descriptors are requested, the characteristic is added, and each descriptor is added
  tagged with the UUID string of that characteristic; a node is finished before its next
  sibling starts. The collection afterwards is the old one with the additions applied in
  that order, and it is the value returned.
\<close>

theorem get_services_discovery_order:
  assumes "cached_services s = None"
    and "discoverServices na = Inr svcs"
    and "\<forall>sv\<in>set svcs. discoverCharacteristics na sv = Inr (chars sv) \<and>
             (\<forall>c\<in>set (chars sv). discoverDescriptors na c = Inr (descs c))"
  shows "trace (snd (get_services na s)) = trace s @ discovery_order svcs chars descs
       \<and> services (snd (get_services na s)) =
           foldl apply_event (services s) (discovery_order svcs chars descs)
       \<and> fst (get_services na s) = Inr (services (snd (get_services na s)))"
  by (simp add: get_services_replay [OF assms] trace_replay services_replay)

theorem get_services_discovery_order_witness:
  "trace (snd (get_services example_native (BleakClientCoreBluetooth ''ab-01''))) =
     trace (BleakClientCoreBluetooth ''ab-01'') @
       discovery_order [svc_180D] example_characteristics example_descriptors
   \<and> discovery_order [svc_180D] example_characteristics example_descriptors =
       [DiscoverServices,
        DiscoverCharacteristics svc_180D, AddService (BleakGATTServiceCoreBluetooth svc_180D),
        DiscoverDescriptors chr_2A37, AddCharacteristic (BleakGATTCharacteristicCoreBluetooth chr_2A37),
        AddDescriptor (BleakGATTDescriptorCoreBluetooth dsc_42 ''2A37'')]
   \<and> services (snd (get_services example_native (BleakClientCoreBluetooth ''ab-01''))) = example_collection"
proof -
  have h1: "cached_services (BleakClientCoreBluetooth ''ab-01'') = None"
    by (simp add: BleakClientCoreBluetooth_def)
  have h2: "discoverServices example_native = Inr [svc_180D]"
    by (simp add: example_native_def)
  have h3: "\<forall>sv\<in>set [svc_180D].
              discoverCharacteristics example_native sv = Inr (example_characteristics sv) \<and>
              (\<forall>c\<in>set (example_characteristics sv).
                 discoverDescriptors example_native c = Inr (example_descriptors c))"
    by (simp add: example_native_def)
  have order: "discovery_order [svc_180D] example_characteristics example_descriptors =
       [DiscoverServices,
        DiscoverCharacteristics svc_180D, AddService (BleakGATTServiceCoreBluetooth svc_180D),
        DiscoverDescriptors chr_2A37, AddCharacteristic (BleakGATTCharacteristicCoreBluetooth chr_2A37),
        AddDescriptor (BleakGATTDescriptorCoreBluetooth dsc_42 ''2A37'')]"
    by code_simp
  have coll: "foldl apply_event (services (BleakClientCoreBluetooth ''ab-01''))
                (discovery_order [svc_180D] example_characteristics example_descriptors) =
              example_collection"
    by code_simp
  from get_services_discovery_order [OF h1 h2 h3] order coll show ?thesis
    by simp
qed

subsection \<open>A second call of get_services\<close>

text \<open>
  Claim C2. After \<^verbatim>\<open>get_services\<close> has completed once, a later call should return the
  cached collection without any discovery call. The early return tests
  \<^verbatim>\<open>self._services\<close>, which no statement ever assigns: after the first call it is
  still \<open>None\<close>, and the second call runs the whole discovery again, so each discovery
  call of the first run occurs a second time in the trace.
\<close>

theorem get_services_twice_rediscovers:
  "cached_services (snd (get_services example_native (BleakClientCoreBluetooth ''ab-01''))) = None
   \<and> trace (snd (get_services example_native
                (snd (get_services example_native (BleakClientCoreBluetooth ''ab-01''))))) =
       [DiscoverServices,
        DiscoverCharacteristics svc_180D, AddService (BleakGATTServiceCoreBluetooth svc_180D),
        DiscoverDescriptors chr_2A37, AddCharacteristic (BleakGATTCharacteristicCoreBluetooth chr_2A37),
        AddDescriptor (BleakGATTDescriptorCoreBluetooth dsc_42 ''2A37''),
        DiscoverServices,
        DiscoverCharacteristics svc_180D, AddService (BleakGATTServiceCoreBluetooth svc_180D),
        DiscoverDescriptors chr_2A37, AddCharacteristic (BleakGATTCharacteristicCoreBluetooth chr_2A37),
        AddDescriptor (BleakGATTDescriptorCoreBluetooth dsc_42 ''2A37'')]"
  by code_simp

section \<open>Operations on characteristics\<close>

text \<open>
  Claim C4. Each operation with a UUID argument should normalise it before the lookup,
  so that the short and the full form of a Base-UUID characteristic reach the same
  object. \<^verbatim>\<open>start_notify\<close> does: both forms reach the characteristic \<^verbatim>\<open>2A37\<close> of the
  collection. \<^verbatim>\<open>stop_notify\<close> looks up the coroutine object instead of the normalised
  string and finds nothing, for either form, although the characteristic is present.
\<close>

theorem stop_notify_looks_up_coroutine:
  "get_characteristic (services discovered_client) (UuidStr ''2A37'') =
     Some (BleakGATTCharacteristicCoreBluetooth chr_2A37)
   \<and> start_notify example_native ''2a37'' 0 discovered_client =
       (Inr (), discovered_client\<lparr>trace := [StartNotify chr_2A37 0]\<rparr>)
   \<and> start_notify example_native ''00002A37-0000-1000-8000-00805F9B34FB'' 0 discovered_client =
       (Inr (), discovered_client\<lparr>trace := [StartNotify chr_2A37 0]\<rparr>)
   \<and> stop_notify example_native ''2A37'' discovered_client =
       (Inl (BleakError
          ''Characteristic <coroutine object BleakClientCoreBluetooth.get_appropriate_uuid> not found!''),
        discovered_client)
   \<and> stop_notify example_native ''00002A37-0000-1000-8000-00805F9B34FB'' discovered_client =
       (Inl (BleakError
          ''Characteristic <coroutine object BleakClientCoreBluetooth.get_appropriate_uuid> not found!''),
        discovered_client)"
  by code_simp

text \<open>
  Claim C8. The \<^verbatim>\<open>response\<close> argument of \<^verbatim>\<open>write_gatt_char\<close> should determine the
  write mode of the adapter call. The call made to the delegate carries the native
  characteristic and the data only; with \<^verbatim>\<open>response\<close> true and false the result, the
  state and the trace are the same.
\<close>

theorem write_gatt_char_ignores_response:
  "write_gatt_char example_native ''2A37'' [1, 2] True discovered_client =
     (Inr (), discovered_client\<lparr>trace := [WriteCharacteristic chr_2A37 [1, 2]]\<rparr>)
   \<and> write_gatt_char example_native ''2A37'' [1, 2] False discovered_client =
     (Inr (), discovered_client\<lparr>trace := [WriteCharacteristic chr_2A37 [1, 2]]\<rparr>)"
  by code_simp

text \<open>
  Claim C6, amended. What decides is the normalised UUID. When the normalised form of the
  argument is not a key of the collection, \<^verbatim>\<open>read_gatt_char\<close> raises the \<open>BleakError\<close>
  whose message names the normalised UUID and leaves the state as it was, so no call
  reaches the adapter; when it is a key, the read is issued on that characteristic and its
  reply is the result. \<^verbatim>\<open>read_gatt_descriptor\<close> and \<^verbatim>\<open>write_gatt_descriptor\<close> raise the
  error naming the handle, with the state as it was, for a handle that is not a key.
\<close>

theorem not_found_errors:
  assumes "get_appropriate_uuid na u = Inr k"
  shows "(get_characteristic (services s) (UuidStr k) = None \<longrightarrow>
            read_gatt_char na u use_cached s =
              (Inl (BleakError (''Characteristic '' @ k @ '' was not found!'')), s))
       \<and> (get_characteristic (services s) (UuidStr k) = Some ch \<longrightarrow>
            read_gatt_char na u use_cached s =
              (readCharacteristic na (characteristic_obj ch) use_cached,
               record_event (ReadCharacteristic (characteristic_obj ch) use_cached) s))
       \<and> (get_descriptor (services s) h = None \<longrightarrow>
            read_gatt_descriptor na h use_cached s =
              (Inl (BleakError (''Descriptor '' @ format_int h @ '' was not found!'')), s)
            \<and> write_gatt_descriptor na h data s =
              (Inl (BleakError (''Descriptor '' @ format_int h @ '' was not found!'')), s))"
  using assms
  by (simp add: read_gatt_char_def read_gatt_descriptor_def write_gatt_descriptor_def Let_def
      split: sum.splits)

theorem not_found_errors_witness:
  "read_gatt_char example_native ''00002a38-0000-1000-8000-00805f9b34fb'' False discovered_client =
     (Inl (BleakError ''Characteristic 2A38 was not found!''), discovered_client)
   \<and> read_gatt_char example_native ''00002a37-0000-1000-8000-00805f9b34fb'' False discovered_client =
     (Inr [6, 72], record_event (ReadCharacteristic chr_2A37 False) discovered_client)
   \<and> read_gatt_descriptor example_native 7 False discovered_client =
     (Inl (BleakError ''Descriptor 7 was not found!''), discovered_client)
   \<and> write_gatt_descriptor example_native 7 [1, 0] discovered_client =
     (Inl (BleakError ''Descriptor 7 was not found!''), discovered_client)"
proof -
  have k: "get_appropriate_uuid example_native ''00002a38-0000-1000-8000-00805f9b34fb'' = Inr ''2A38''"
    by code_simp
  have a: "get_characteristic (services discovered_client) (UuidStr ''2A38'') = None"
    by code_simp
  have k': "get_appropriate_uuid example_native ''00002a37-0000-1000-8000-00805f9b34fb'' = Inr ''2A37''"
    by code_simp
  have p: "get_characteristic (services discovered_client) (UuidStr ''2A37'') =
             Some (BleakGATTCharacteristicCoreBluetooth chr_2A37)"
    by code_simp
  have o: "characteristic_obj (BleakGATTCharacteristicCoreBluetooth chr_2A37) = chr_2A37"
    by (simp add: BleakGATTCharacteristicCoreBluetooth_def)
  have r: "readCharacteristic example_native chr_2A37 False = Inr [6, 72]"
    by (simp add: example_native_def)
  have d: "get_descriptor (services discovered_client) 7 = None"
    by code_simp
  have f: "format_int 7 = ''7''"
    by code_simp
  from not_found_errors [OF k, where s = discovered_client and h = 7
      and use_cached = False and data = "[1, 0]"] a d f
  have absent: "read_gatt_char example_native ''00002a38-0000-1000-8000-00805f9b34fb'' False discovered_client =
     (Inl (BleakError ''Characteristic 2A38 was not found!''), discovered_client)
   \<and> read_gatt_descriptor example_native 7 False discovered_client =
     (Inl (BleakError ''Descriptor 7 was not found!''), discovered_client)
   \<and> write_gatt_descriptor example_native 7 [1, 0] discovered_client =
     (Inl (BleakError ''Descriptor 7 was not found!''), discovered_client)"
    by simp
  from not_found_errors [OF k', where s = discovered_client and use_cached = False
      and ch = "BleakGATTCharacteristicCoreBluetooth chr_2A37"] p o r
  have present: "read_gatt_char example_native ''00002a37-0000-1000-8000-00805f9b34fb'' False discovered_client =
     (Inr [6, 72], record_event (ReadCharacteristic chr_2A37 False) discovered_client)"
    by simp
  from absent present show ?thesis by simp
qed

text \<open>
  The claim as first stated, for every UUID absent from the collection, fails. The UUID
  \<^verbatim>\<open>00002A37-0000-0000-0000-000000000000\<close> is no key of the collection and is another
  128-bit value than the Base-UUID form of \<^verbatim>\<open>2A37\<close>, the only key. All its set bits
  lie within the mask, so it is shortened to \<^verbatim>\<open>2A37\<close>, and the read is issued on that
  characteristic and returns its octets.
\<close>

theorem not_found_errors_counterexample:
  "get_characteristic (services discovered_client) (UuidStr ''00002A37-0000-0000-0000-000000000000'') = None
   \<and> map fst (characteristics_index (services discovered_client)) = [''2A37'']
   \<and> from_bytes_big (uuid_text_octets ''00002A37-0000-0000-0000-000000000000'') \<noteq>
       from_bytes_big (uuid_text_octets ''00002A37-0000-1000-8000-00805F9B34FB'')
   \<and> get_appropriate_uuid example_native ''00002A37-0000-0000-0000-000000000000'' = Inr ''2A37''
   \<and> read_gatt_char example_native ''00002A37-0000-0000-0000-000000000000'' False discovered_client =
       (Inr [6, 72], record_event (ReadCharacteristic chr_2A37 False) discovered_client)"
  by code_simp

section \<open>The connection state\<close>

subsection \<open>Discovery only extends the trace\<close>

lemma trace_characteristics_loop:
  "\<exists>es. trace (snd (characteristics_loop na cs s)) = trace s @ es"
proof (induction cs arbitrary: s)
  case Nil
  show ?case by simp
next
  case (Cons c cs)
  show ?case
  proof (cases "discoverDescriptors na c")
    case (Inl e)
    then show ?thesis by (simp add: record_event_def)
  next
    case (Inr ds)
    let ?t = "descriptors_loop (characteristic_UUID c) ds
                (services_add_characteristic (BleakGATTCharacteristicCoreBluetooth c)
                   (record_event (DiscoverDescriptors c) s))"
    from Cons.IH [of ?t] obtain es where "trace (snd (characteristics_loop na cs ?t)) = trace ?t @ es" ..
    moreover have "\<exists>fs. trace ?t = trace s @ fs"
      by (simp add: descriptors_loop_replay trace_replay add_characteristic_perform
          record_DiscoverDescriptors trace_perform)
    ultimately show ?thesis using Inr by (auto simp: Let_def)
  qed
qed

lemma trace_services_loop:
  "\<exists>es. trace (snd (services_loop na svcs s)) = trace s @ es"
proof (induction svcs arbitrary: s)
  case Nil
  show ?case by simp
next
  case (Cons sv svcs)
  show ?case
  proof (cases "discoverCharacteristics na sv")
    case (Inl e)
    then show ?thesis by (simp add: record_event_def)
  next
    case (Inr cs)
    let ?t = "services_add_service (BleakGATTServiceCoreBluetooth sv)
                (record_event (DiscoverCharacteristics sv) s)"
    have t: "trace ?t = trace s @ [DiscoverCharacteristics sv, AddService (BleakGATTServiceCoreBluetooth sv)]"
      by (simp add: add_service_perform record_DiscoverCharacteristics trace_perform)
    obtain r t2 where loop: "characteristics_loop na cs ?t = (r, t2)"
      by (cases "characteristics_loop na cs ?t")
    from trace_characteristics_loop [of na cs ?t] loop t
    obtain es where t2: "trace t2 = trace s @ es" by auto
    show ?thesis
    proof (cases r)
      case (Inl e)
      with Inr loop t2 show ?thesis by (simp add: Let_def)
    next
      case (Inr u)
      from Cons.IH [of t2] t2 obtain fs where "trace (snd (services_loop na svcs t2)) = trace s @ fs"
        by auto
      with \<open>discoverCharacteristics na sv = Inr cs\<close> loop Inr show ?thesis by (simp add: Let_def)
    qed
  qed
qed

lemma trace_get_services:
  assumes "cached_services s = None"
  shows "\<exists>es. trace (snd (get_services na s)) = trace s @ DiscoverServices # es"
proof (cases "discoverServices na")
  case (Inl e)
  with assms show ?thesis by (simp add: get_services_def record_event_def)
next
  case (Inr svcs)
  let ?t = "record_event DiscoverServices s"
  obtain r t2 where loop: "services_loop na svcs ?t = (r, t2)"
    by (cases "services_loop na svcs ?t")
  from trace_services_loop [of na svcs ?t] loop
  obtain es where "trace t2 = trace s @ DiscoverServices # es"
    by (auto simp: record_event_def)
  with assms Inr loop show ?thesis
    by (cases r) (simp_all add: get_services_def Let_def)
qed

subsection \<open>No operation reads the connection flag\<close>

lemma record_event_isConnected:
  "record_event e (s\<lparr>isConnected := b\<rparr>) = (record_event e s)\<lparr>isConnected := b\<rparr>"
  by (simp add: record_event_def)

lemma perform_isConnected: "perform e (s\<lparr>isConnected := b\<rparr>) = (perform e s)\<lparr>isConnected := b\<rparr>"
  by (simp add: perform_def record_event_def)

lemma replay_isConnected: "replay es (s\<lparr>isConnected := b\<rparr>) = (replay es s)\<lparr>isConnected := b\<rparr>"
  by (induction es arbitrary: s) (simp_all add: replay_Nil replay_Cons perform_isConnected)

lemma descriptors_loop_isConnected:
  "descriptors_loop cUUID ds (s\<lparr>isConnected := b\<rparr>) = (descriptors_loop cUUID ds s)\<lparr>isConnected := b\<rparr>"
  by (simp add: descriptors_loop_replay replay_isConnected)

lemma characteristics_loop_isConnected:
  "characteristics_loop na cs (s\<lparr>isConnected := b\<rparr>) =
     (fst (characteristics_loop na cs s), (snd (characteristics_loop na cs s))\<lparr>isConnected := b\<rparr>)"
proof (induction cs arbitrary: s)
  case Nil
  show ?case by simp
next
  case (Cons c cs)
  show ?case
  proof (cases "discoverDescriptors na c")
    case (Inl e)
    then show ?thesis by (simp add: record_event_isConnected)
  next
    case (Inr ds)
    then show ?thesis
      by (simp add: record_DiscoverDescriptors add_characteristic_perform perform_isConnected
          descriptors_loop_isConnected Cons.IH)
  qed
qed

lemma services_loop_isConnected:
  "services_loop na svcs (s\<lparr>isConnected := b\<rparr>) =
     (fst (services_loop na svcs s), (snd (services_loop na svcs s))\<lparr>isConnected := b\<rparr>)"
proof (induction svcs arbitrary: s)
  case Nil
  show ?case by simp
next
  case (Cons sv svcs)
  show ?case
  proof (cases "discoverCharacteristics na sv")
    case (Inl e)
    then show ?thesis by (simp add: record_event_isConnected)
  next
    case (Inr cs)
    let ?t = "perform (AddService (BleakGATTServiceCoreBluetooth sv)) (perform (DiscoverCharacteristics sv) s)"
    obtain r t2 where loop: "characteristics_loop na cs ?t = (r, t2)"
      by (cases "characteristics_loop na cs ?t")
    with characteristics_loop_isConnected [where na = na and cs = cs and s = ?t and b = b]
    have loop': "characteristics_loop na cs (?t\<lparr>isConnected := b\<rparr>) = (r, t2\<lparr>isConnected := b\<rparr>)"
      by simp
    show ?thesis
      using Inr loop loop'
      by (cases r)
        (simp_all add: record_DiscoverCharacteristics add_service_perform perform_isConnected Cons.IH)
  qed
qed

lemma get_services_isConnected:
  "get_services na (s\<lparr>isConnected := b\<rparr>) =
     (fst (get_services na s), (snd (get_services na s))\<lparr>isConnected := b\<rparr>)"
proof (cases "cached_services s")
  case (Some c)
  then show ?thesis by (simp add: get_services_def)
next
  case None
  show ?thesis
  proof (cases "discoverServices na")
    case (Inl e)
    with None show ?thesis by (simp add: get_services_def record_event_isConnected)
  next
    case (Inr svcs)
    let ?t = "record_event DiscoverServices s"
    obtain r t2 where loop: "services_loop na svcs ?t = (r, t2)"
      by (cases "services_loop na svcs ?t")
    with services_loop_isConnected [where na = na and svcs = svcs and s = ?t and b = b]
    have loop': "services_loop na svcs (?t\<lparr>isConnected := b\<rparr>) = (r, t2\<lparr>isConnected := b\<rparr>)"
      by simp
    from None Inr loop loop' show ?thesis
      by (cases r) (simp_all add: get_services_def record_event_isConnected Let_def)
  qed
qed

lemma read_gatt_char_isConnected:
  "read_gatt_char na u uc (s\<lparr>isConnected := b\<rparr>) =
     (fst (read_gatt_char na u uc s), (snd (read_gatt_char na u uc s))\<lparr>isConnected := b\<rparr>)"
  by (simp add: read_gatt_char_def record_event_isConnected Let_def split: sum.splits option.splits)

lemma write_gatt_char_isConnected:
  "write_gatt_char na u data response (s\<lparr>isConnected := b\<rparr>) =
     (fst (write_gatt_char na u data response s),
      (snd (write_gatt_char na u data response s))\<lparr>isConnected := b\<rparr>)"
  by (simp add: write_gatt_char_def record_event_isConnected Let_def split: sum.splits option.splits)

lemma start_notify_isConnected:
  "start_notify na u cb (s\<lparr>isConnected := b\<rparr>) =
     (fst (start_notify na u cb s), (snd (start_notify na u cb s))\<lparr>isConnected := b\<rparr>)"
  by (simp add: start_notify_def record_event_isConnected Let_def split: sum.splits option.splits)

lemma stop_notify_isConnected:
  "stop_notify na u (s\<lparr>isConnected := b\<rparr>) =
     (fst (stop_notify na u s), (snd (stop_notify na u s))\<lparr>isConnected := b\<rparr>)"
  by (simp add: stop_notify_def)

lemma read_gatt_descriptor_isConnected:
  "read_gatt_descriptor na h uc (s\<lparr>isConnected := b\<rparr>) =
     (fst (read_gatt_descriptor na h uc s), (snd (read_gatt_descriptor na h uc s))\<lparr>isConnected := b\<rparr>)"
  by (simp add: read_gatt_descriptor_def record_event_isConnected Let_def split: sum.splits option.splits)

lemma write_gatt_descriptor_isConnected:
  "write_gatt_descriptor na h data (s\<lparr>isConnected := b\<rparr>) =
     (fst (write_gatt_descriptor na h data s), (snd (write_gatt_descriptor na h data s))\<lparr>isConnected := b\<rparr>)"
  by (simp add: write_gatt_descriptor_def record_event_isConnected Let_def split: sum.splits option.splits)

lemma disconnected_again: "\<not> isConnected s \<Longrightarrow> s\<lparr>isConnected := True, isConnected := False\<rparr> = s"
  by simp

subsection \<open>Operations while disconnected\<close>

text \<open>
  Claim C3, amended. No operation tests the connection state, and none raises a
  "not connected" error: while the client is disconnected, each of \<^verbatim>\<open>read_gatt_char\<close>,
  \<^verbatim>\<open>write_gatt_char\<close>, \<^verbatim>\<open>start_notify\<close>, \<^verbatim>\<open>stop_notify\<close>, \<^verbatim>\<open>read_gatt_descriptor\<close>,
  \<^verbatim>\<open>write_gatt_descriptor\<close> and \<^verbatim>\<open>get_services\<close> returns what it returns when
  connected and leaves the same state but for the flag. So \<^verbatim>\<open>read_gatt_char\<close>,
  \<^verbatim>\<open>write_gatt_char\<close> and \<^verbatim>\<open>start_notify\<close> on a UUID whose normalised form is not in
  the collection, and \<^verbatim>\<open>read_gatt_descriptor\<close> and \<^verbatim>\<open>write_gatt_descriptor\<close> on a
  handle that is not in it, fail at once with the not-found \<open>BleakError\<close> and leave
  the state as it was, so no call reaches the adapter; with the empty collection of a new
  client that is every UUID and every handle. On an entry that is in the collection each
  of the five makes its adapter call and returns the adapter's reply.
  \<^verbatim>\<open>get_services\<close> does not fail on account of the state: its first step is the
  adapter call \<open>DiscoverServices\<close>.
\<close>

theorem disconnected_operations:
  assumes "\<not> isConnected s"
  shows "read_gatt_char na u use_cached s =
           (fst (read_gatt_char na u use_cached (s\<lparr>isConnected := True\<rparr>)),
            (snd (read_gatt_char na u use_cached (s\<lparr>isConnected := True\<rparr>)))\<lparr>isConnected := False\<rparr>)
       \<and> write_gatt_char na u data response s =
           (fst (write_gatt_char na u data response (s\<lparr>isConnected := True\<rparr>)),
            (snd (write_gatt_char na u data response (s\<lparr>isConnected := True\<rparr>)))\<lparr>isConnected := False\<rparr>)
       \<and> start_notify na u cb s =
           (fst (start_notify na u cb (s\<lparr>isConnected := True\<rparr>)),
            (snd (start_notify na u cb (s\<lparr>isConnected := True\<rparr>)))\<lparr>isConnected := False\<rparr>)
       \<and> stop_notify na u s =
           (fst (stop_notify na u (s\<lparr>isConnected := True\<rparr>)),
            (snd (stop_notify na u (s\<lparr>isConnected := True\<rparr>)))\<lparr>isConnected := False\<rparr>)
       \<and> read_gatt_descriptor na h use_cached s =
           (fst (read_gatt_descriptor na h use_cached (s\<lparr>isConnected := True\<rparr>)),
            (snd (read_gatt_descriptor na h use_cached (s\<lparr>isConnected := True\<rparr>)))\<lparr>isConnected := False\<rparr>)
       \<and> write_gatt_descriptor na h data s =
           (fst (write_gatt_descriptor na h data (s\<lparr>isConnected := True\<rparr>)),
            (snd (write_gatt_descriptor na h data (s\<lparr>isConnected := True\<rparr>)))\<lparr>isConnected := False\<rparr>)
       \<and> get_services na s =
           (fst (get_services na (s\<lparr>isConnected := True\<rparr>)),
            (snd (get_services na (s\<lparr>isConnected := True\<rparr>)))\<lparr>isConnected := False\<rparr>)
       \<and> (get_appropriate_uuid na u = Inr k \<and> get_characteristic (services s) (UuidStr k) = None \<longrightarrow>
            read_gatt_char na u use_cached s =
              (Inl (BleakError (''Characteristic '' @ k @ '' was not found!'')), s)
          \<and> write_gatt_char na u data response s =
              (Inl (BleakError (''Characteristic '' @ k @ '' was not found!'')), s)
          \<and> start_notify na u cb s =
              (Inl (BleakError (''Characteristic '' @ k @ '' not found!'')), s))
       \<and> (get_appropriate_uuid na u = Inr k \<and> get_characteristic (services s) (UuidStr k) = Some ch \<longrightarrow>
            read_gatt_char na u use_cached s =
              (readCharacteristic na (characteristic_obj ch) use_cached,
               record_event (ReadCharacteristic (characteristic_obj ch) use_cached) s)
          \<and> write_gatt_char na u data response s =
              ((case writeCharacteristic_value na (characteristic_obj ch) data of
                  Inl e \<Rightarrow> Inl e | Inr success \<Rightarrow> Inr ()),
               record_event (WriteCharacteristic (characteristic_obj ch) data) s)
          \<and> start_notify na u cb s =
              ((case startNotify_cb na (characteristic_obj ch) cb of
                  Inl e \<Rightarrow> Inl e | Inr success \<Rightarrow> Inr ()),
               record_event (StartNotify (characteristic_obj ch) cb) s))
       \<and> (get_descriptor (services s) h = None \<longrightarrow>
            read_gatt_descriptor na h use_cached s =
              (Inl (BleakError (''Descriptor '' @ format_int h @ '' was not found!'')), s)
          \<and> write_gatt_descriptor na h data s =
              (Inl (BleakError (''Descriptor '' @ format_int h @ '' was not found!'')), s))
       \<and> (get_descriptor (services s) h = Some dsc \<longrightarrow>
            read_gatt_descriptor na h use_cached s =
              (readDescriptor na (descriptor_obj dsc) use_cached,
               record_event (ReadDescriptor (descriptor_obj dsc) use_cached) s)
          \<and> write_gatt_descriptor na h data s =
              ((case writeDescriptor_value na (descriptor_obj dsc) data of
                  Inl e \<Rightarrow> Inl e | Inr success \<Rightarrow> Inr ()),
               record_event (WriteDescriptor (descriptor_obj dsc) data) s))
       \<and> (services s = empty_collection \<longrightarrow>
            get_characteristic (services s) (UuidStr k) = None \<and> get_descriptor (services s) h = None)
       \<and> (cached_services s = None \<longrightarrow>
            take (Suc (length (trace s))) (trace (snd (get_services na s))) = trace s @ [DiscoverServices])"
proof -
  note again = disconnected_again [OF assms]
  have i1: "read_gatt_char na u use_cached s =
           (fst (read_gatt_char na u use_cached (s\<lparr>isConnected := True\<rparr>)),
            (snd (read_gatt_char na u use_cached (s\<lparr>isConnected := True\<rparr>)))\<lparr>isConnected := False\<rparr>)"
    using read_gatt_char_isConnected [where s = "s\<lparr>isConnected := True\<rparr>" and b = False]
    by (simp only: again)
  have i2: "write_gatt_char na u data response s =
           (fst (write_gatt_char na u data response (s\<lparr>isConnected := True\<rparr>)),
            (snd (write_gatt_char na u data response (s\<lparr>isConnected := True\<rparr>)))\<lparr>isConnected := False\<rparr>)"
    using write_gatt_char_isConnected [where s = "s\<lparr>isConnected := True\<rparr>" and b = False]
    by (simp only: again)
  have i3: "start_notify na u cb s =
           (fst (start_notify na u cb (s\<lparr>isConnected := True\<rparr>)),
            (snd (start_notify na u cb (s\<lparr>isConnected := True\<rparr>)))\<lparr>isConnected := False\<rparr>)"
    using start_notify_isConnected [where s = "s\<lparr>isConnected := True\<rparr>" and b = False]
    by (simp only: again)
  have i4: "stop_notify na u s =
           (fst (stop_notify na u (s\<lparr>isConnected := True\<rparr>)),
            (snd (stop_notify na u (s\<lparr>isConnected := True\<rparr>)))\<lparr>isConnected := False\<rparr>)"
    using stop_notify_isConnected [where s = "s\<lparr>isConnected := True\<rparr>" and b = False]
    by (simp only: again)
  have i5: "read_gatt_descriptor na h use_cached s =
           (fst (read_gatt_descriptor na h use_cached (s\<lparr>isConnected := True\<rparr>)),
            (snd (read_gatt_descriptor na h use_cached (s\<lparr>isConnected := True\<rparr>)))\<lparr>isConnected := False\<rparr>)"
    using read_gatt_descriptor_isConnected [where s = "s\<lparr>isConnected := True\<rparr>" and b = False]
    by (simp only: again)
  have i6: "write_gatt_descriptor na h data s =
           (fst (write_gatt_descriptor na h data (s\<lparr>isConnected := True\<rparr>)),
            (snd (write_gatt_descriptor na h data (s\<lparr>isConnected := True\<rparr>)))\<lparr>isConnected := False\<rparr>)"
    using write_gatt_descriptor_isConnected [where s = "s\<lparr>isConnected := True\<rparr>" and b = False]
    by (simp only: again)
  have i7: "get_services na s =
           (fst (get_services na (s\<lparr>isConnected := True\<rparr>)),
            (snd (get_services na (s\<lparr>isConnected := True\<rparr>)))\<lparr>isConnected := False\<rparr>)"
    using get_services_isConnected [where s = "s\<lparr>isConnected := True\<rparr>" and b = False]
    by (simp only: again)
  have absent: "read_gatt_char na u use_cached s =
              (Inl (BleakError (''Characteristic '' @ k @ '' was not found!'')), s)
          \<and> write_gatt_char na u data response s =
              (Inl (BleakError (''Characteristic '' @ k @ '' was not found!'')), s)
          \<and> start_notify na u cb s =
              (Inl (BleakError (''Characteristic '' @ k @ '' not found!'')), s)"
    if "get_appropriate_uuid na u = Inr k \<and> get_characteristic (services s) (UuidStr k) = None"
    using that by (simp add: read_gatt_char_def write_gatt_char_def start_notify_def)
  have present: "read_gatt_char na u use_cached s =
              (readCharacteristic na (characteristic_obj ch) use_cached,
               record_event (ReadCharacteristic (characteristic_obj ch) use_cached) s)
          \<and> write_gatt_char na u data response s =
              ((case writeCharacteristic_value na (characteristic_obj ch) data of
                  Inl e \<Rightarrow> Inl e | Inr success \<Rightarrow> Inr ()),
               record_event (WriteCharacteristic (characteristic_obj ch) data) s)
          \<and> start_notify na u cb s =
              ((case startNotify_cb na (characteristic_obj ch) cb of
                  Inl e \<Rightarrow> Inl e | Inr success \<Rightarrow> Inr ()),
               record_event (StartNotify (characteristic_obj ch) cb) s)"
    if "get_appropriate_uuid na u = Inr k \<and> get_characteristic (services s) (UuidStr k) = Some ch"
    using that
    by (simp add: read_gatt_char_def write_gatt_char_def start_notify_def Let_def split: sum.splits)
  have dabsent: "read_gatt_descriptor na h use_cached s =
              (Inl (BleakError (''Descriptor '' @ format_int h @ '' was not found!'')), s)
          \<and> write_gatt_descriptor na h data s =
              (Inl (BleakError (''Descriptor '' @ format_int h @ '' was not found!'')), s)"
    if "get_descriptor (services s) h = None"
    using that by (simp add: read_gatt_descriptor_def write_gatt_descriptor_def)
  have dpresent: "read_gatt_descriptor na h use_cached s =
              (readDescriptor na (descriptor_obj dsc) use_cached,
               record_event (ReadDescriptor (descriptor_obj dsc) use_cached) s)
          \<and> write_gatt_descriptor na h data s =
              ((case writeDescriptor_value na (descriptor_obj dsc) data of
                  Inl e \<Rightarrow> Inl e | Inr success \<Rightarrow> Inr ()),
               record_event (WriteDescriptor (descriptor_obj dsc) data) s)"
    if "get_descriptor (services s) h = Some dsc"
    using that
    by (simp add: read_gatt_descriptor_def write_gatt_descriptor_def Let_def split: sum.splits)
  have empty: "get_characteristic (services s) (UuidStr k) = None \<and> get_descriptor (services s) h = None"
    if "services s = empty_collection"
    using that by (simp add: empty_collection_def get_descriptor_def)
  have first: "take (Suc (length (trace s))) (trace (snd (get_services na s))) = trace s @ [DiscoverServices]"
    if "cached_services s = None"
  proof -
    from trace_get_services [OF that, of na]
    obtain es where "trace (snd (get_services na s)) = trace s @ DiscoverServices # es" ..
    then show ?thesis by simp
  qed
  from i1 i2 i3 i4 i5 i6 i7 absent present dabsent dpresent empty first
  show ?thesis by blast
qed

theorem disconnected_operations_witness:
  "\<not> isConnected (BleakClientCoreBluetooth ''ab-01'')
   \<and> read_gatt_char example_native ''2a37'' False (BleakClientCoreBluetooth ''ab-01'') =
       (Inl (BleakError ''Characteristic 2A37 was not found!''), BleakClientCoreBluetooth ''ab-01'')
   \<and> write_gatt_char example_native ''2a37'' [1] True (BleakClientCoreBluetooth ''ab-01'') =
       (Inl (BleakError ''Characteristic 2A37 was not found!''), BleakClientCoreBluetooth ''ab-01'')
   \<and> start_notify example_native ''2a37'' 0 (BleakClientCoreBluetooth ''ab-01'') =
       (Inl (BleakError ''Characteristic 2A37 not found!''), BleakClientCoreBluetooth ''ab-01'')
   \<and> read_gatt_descriptor example_native 42 False (BleakClientCoreBluetooth ''ab-01'') =
       (Inl (BleakError ''Descriptor 42 was not found!''), BleakClientCoreBluetooth ''ab-01'')
   \<and> write_gatt_descriptor example_native 42 [1] (BleakClientCoreBluetooth ''ab-01'') =
       (Inl (BleakError ''Descriptor 42 was not found!''), BleakClientCoreBluetooth ''ab-01'')
   \<and> take (Suc (length (trace (BleakClientCoreBluetooth ''ab-01''))))
        (trace (snd (get_services example_native (BleakClientCoreBluetooth ''ab-01'')))) =
       trace (BleakClientCoreBluetooth ''ab-01'') @ [DiscoverServices]
   \<and> \<not> isConnected disconnected_client
   \<and> read_gatt_char example_native ''2a37'' False disconnected_client =
       (Inr [6, 72], record_event (ReadCharacteristic chr_2A37 False) disconnected_client)
   \<and> write_gatt_char example_native ''2a37'' [1] True disconnected_client =
       (Inr (), record_event (WriteCharacteristic chr_2A37 [1]) disconnected_client)
   \<and> start_notify example_native ''2a37'' 0 disconnected_client =
       (Inr (), record_event (StartNotify chr_2A37 0) disconnected_client)
   \<and> read_gatt_descriptor example_native 42 False disconnected_client =
       (Inr [1, 0], record_event (ReadDescriptor dsc_42 False) disconnected_client)
   \<and> write_gatt_descriptor example_native 42 [1] disconnected_client =
       (Inr (), record_event (WriteDescriptor dsc_42 [1]) disconnected_client)
   \<and> get_services example_native disconnected_client =
       (fst (get_services example_native discovered_client),
        (snd (get_services example_native discovered_client))\<lparr>isConnected := False\<rparr>)"
proof -
  let ?new = "BleakClientCoreBluetooth ''ab-01''"
  let ?ch = "BleakGATTCharacteristicCoreBluetooth chr_2A37"
  let ?dsc = "BleakGATTDescriptorCoreBluetooth dsc_42 ''2A37''"
  have c: "\<not> isConnected ?new"
    by (simp add: BleakClientCoreBluetooth_def)
  have k: "get_appropriate_uuid example_native ''2a37'' = Inr ''2A37''"
    by code_simp
  have e: "services ?new = empty_collection"
    by (simp add: BleakClientCoreBluetooth_def)
  have n: "cached_services ?new = None"
    by (simp add: BleakClientCoreBluetooth_def)
  have f: "format_int 42 = ''42''"
    by code_simp
  from disconnected_operations [OF c, where na = example_native and u = "''2a37''" and k = "''2A37''"
      and h = 42 and use_cached = False and data = "[1]" and response = True and cb = 0] k e n
  have "read_gatt_char example_native ''2a37'' False ?new =
       (Inl (BleakError (''Characteristic '' @ ''2A37'' @ '' was not found!'')), ?new)
   \<and> write_gatt_char example_native ''2a37'' [1] True ?new =
       (Inl (BleakError (''Characteristic '' @ ''2A37'' @ '' was not found!'')), ?new)
   \<and> start_notify example_native ''2a37'' 0 ?new =
       (Inl (BleakError (''Characteristic '' @ ''2A37'' @ '' not found!'')), ?new)
   \<and> read_gatt_descriptor example_native 42 False ?new =
       (Inl (BleakError (''Descriptor '' @ format_int 42 @ '' was not found!'')), ?new)
   \<and> write_gatt_descriptor example_native 42 [1] ?new =
       (Inl (BleakError (''Descriptor '' @ format_int 42 @ '' was not found!'')), ?new)
   \<and> take (Suc (length (trace ?new))) (trace (snd (get_services example_native ?new))) =
       trace ?new @ [DiscoverServices]"
    by blast
  with f have fresh: "read_gatt_char example_native ''2a37'' False ?new =
       (Inl (BleakError ''Characteristic 2A37 was not found!''), ?new)
   \<and> write_gatt_char example_native ''2a37'' [1] True ?new =
       (Inl (BleakError ''Characteristic 2A37 was not found!''), ?new)
   \<and> start_notify example_native ''2a37'' 0 ?new =
       (Inl (BleakError ''Characteristic 2A37 not found!''), ?new)
   \<and> read_gatt_descriptor example_native 42 False ?new =
       (Inl (BleakError ''Descriptor 42 was not found!''), ?new)
   \<and> write_gatt_descriptor example_native 42 [1] ?new =
       (Inl (BleakError ''Descriptor 42 was not found!''), ?new)
   \<and> take (Suc (length (trace ?new))) (trace (snd (get_services example_native ?new))) =
       trace ?new @ [DiscoverServices]"
    by simp
  have c': "\<not> isConnected disconnected_client"
    by (simp add: disconnected_client_def)
  have p: "get_characteristic (services disconnected_client) (UuidStr ''2A37'') = Some ?ch"
    by code_simp
  have q: "get_descriptor (services disconnected_client) 42 = Some ?dsc"
    by code_simp
  have o: "characteristic_obj ?ch = chr_2A37" "descriptor_obj ?dsc = dsc_42"
    by (simp_all add: BleakGATTCharacteristicCoreBluetooth_def BleakGATTDescriptorCoreBluetooth_def)
  have r: "readCharacteristic example_native chr_2A37 False = Inr [6, 72]"
    "writeCharacteristic_value example_native chr_2A37 [1] = Inr True"
    "startNotify_cb example_native chr_2A37 0 = Inr True"
    "readDescriptor example_native dsc_42 False = Inr [1, 0]"
    "writeDescriptor_value example_native dsc_42 [1] = Inr True"
    by (simp_all add: example_native_def)
  have same: "disconnected_client\<lparr>isConnected := True\<rparr> = discovered_client"
    by (simp add: disconnected_client_def discovered_client_def)
  from disconnected_operations [OF c', where na = example_native and u = "''2a37''" and k = "''2A37''"
      and h = 42 and use_cached = False and data = "[1]" and response = True and cb = 0
      and ch = ?ch and dsc = ?dsc] k p q
  have "read_gatt_char example_native ''2a37'' False disconnected_client =
       (readCharacteristic example_native (characteristic_obj ?ch) False,
        record_event (ReadCharacteristic (characteristic_obj ?ch) False) disconnected_client)
   \<and> write_gatt_char example_native ''2a37'' [1] True disconnected_client =
       ((case writeCharacteristic_value example_native (characteristic_obj ?ch) [1] of
           Inl e \<Rightarrow> Inl e | Inr success \<Rightarrow> Inr ()),
        record_event (WriteCharacteristic (characteristic_obj ?ch) [1]) disconnected_client)
   \<and> start_notify example_native ''2a37'' 0 disconnected_client =
       ((case startNotify_cb example_native (characteristic_obj ?ch) 0 of
           Inl e \<Rightarrow> Inl e | Inr success \<Rightarrow> Inr ()),
        record_event (StartNotify (characteristic_obj ?ch) 0) disconnected_client)
   \<and> read_gatt_descriptor example_native 42 False disconnected_client =
       (readDescriptor example_native (descriptor_obj ?dsc) False,
        record_event (ReadDescriptor (descriptor_obj ?dsc) False) disconnected_client)
   \<and> write_gatt_descriptor example_native 42 [1] disconnected_client =
       ((case writeDescriptor_value example_native (descriptor_obj ?dsc) [1] of
           Inl e \<Rightarrow> Inl e | Inr success \<Rightarrow> Inr ()),
        record_event (WriteDescriptor (descriptor_obj ?dsc) [1]) disconnected_client)
   \<and> get_services example_native disconnected_client =
       (fst (get_services example_native (disconnected_client\<lparr>isConnected := True\<rparr>)),
        (snd (get_services example_native (disconnected_client\<lparr>isConnected := True\<rparr>)))\<lparr>isConnected := False\<rparr>)"
    by blast
  then have filled: "read_gatt_char example_native ''2a37'' False disconnected_client =
       (Inr [6, 72], record_event (ReadCharacteristic chr_2A37 False) disconnected_client)
   \<and> write_gatt_char example_native ''2a37'' [1] True disconnected_client =
       (Inr (), record_event (WriteCharacteristic chr_2A37 [1]) disconnected_client)
   \<and> start_notify example_native ''2a37'' 0 disconnected_client =
       (Inr (), record_event (StartNotify chr_2A37 0) disconnected_client)
   \<and> read_gatt_descriptor example_native 42 False disconnected_client =
       (Inr [1, 0], record_event (ReadDescriptor dsc_42 False) disconnected_client)
   \<and> write_gatt_descriptor example_native 42 [1] disconnected_client =
       (Inr (), record_event (WriteDescriptor dsc_42 [1]) disconnected_client)
   \<and> get_services example_native disconnected_client =
       (fst (get_services example_native discovered_client),
        (snd (get_services example_native discovered_client))\<lparr>isConnected := False\<rparr>)"
    by (simp only: o r same sum.case)
  from c fresh c' filled show ?thesis by blast
qed

text \<open>
  The claim as first stated fails. A new client is not connected, yet
  \<^verbatim>\<open>get_services\<close> returns the discovered collection after six events, three of them
  adapter calls. After a disconnect the collection is still filled, and
  \<^verbatim>\<open>read_gatt_char\<close> on a characteristic in it calls the adapter and returns the octets
  read. Where an operation does fail while disconnected, the error is the not-found one.
\<close>

theorem disconnected_operations_counterexample:
  "\<not> isConnected (BleakClientCoreBluetooth ''ab-01'')
   \<and> fst (get_services example_native (BleakClientCoreBluetooth ''ab-01'')) = Inr example_collection
   \<and> trace (snd (get_services example_native (BleakClientCoreBluetooth ''ab-01''))) =
       [DiscoverServices,
        DiscoverCharacteristics svc_180D, AddService (BleakGATTServiceCoreBluetooth svc_180D),
        DiscoverDescriptors chr_2A37, AddCharacteristic (BleakGATTCharacteristicCoreBluetooth chr_2A37),
        AddDescriptor (BleakGATTDescriptorCoreBluetooth dsc_42 ''2A37'')]
   \<and> \<not> isConnected (snd (disconnect example_native discovered_client))
   \<and> fst (read_gatt_char example_native ''2A37'' False (snd (disconnect example_native discovered_client))) =
       Inr [6, 72]
   \<and> trace (snd (read_gatt_char example_native ''2A37'' False (snd (disconnect example_native discovered_client)))) =
       [DisconnectPeripheral, ReadCharacteristic chr_2A37 False]
   \<and> read_gatt_char example_native ''2A38'' False (BleakClientCoreBluetooth ''ab-01'') =
       (Inl (BleakError ''Characteristic 2A38 was not found!''), BleakClientCoreBluetooth ''ab-01'')"
  by code_simp

section \<open>Scanning and connecting\<close>

lemma scan_for_devices_state:
  "snd (scan_for_devices t na s) = record_event (ScanForPeripherals t) s"
  by (simp add: scan_for_devices_def Let_def split: sum.splits prod.splits)

lemma dev_address_make_device: "dev_address (make_device p d) = peripheral_identifier p"
  by (simp add: make_device_def Let_def)

lemma scan_loop_filter:
  assumes "i + length ps \<le> length ads"
  shows "scan_loop ads i ps found =
           Inr (found @ map (\<lambda>(p, a). make_device p (the (a manufacturer_key)))
                          (filter (\<lambda>(p, a). a manufacturer_key \<noteq> None \<and> a manufacturer_key \<noteq> Some [])
                             (zip ps (drop i ads))))"
  using assms
proof (induction ps arbitrary: i found)
  case Nil
  show ?case by simp
next
  case (Cons p ps)
  from Cons.prems have i: "i < length ads" and rest: "Suc i + length ps \<le> length ads"
    by simp_all
  from i have d: "drop i ads = ads ! i # drop (Suc i) ads"
    by (simp add: Cons_nth_drop_Suc)
  show ?case
    by (cases "(ads ! i) manufacturer_key") (simp_all add: i d Cons.IH [OF rest])
qed

text \<open>
  Claim C7. \<^verbatim>\<open>connect\<close> scans with the timeout 10. If no device of the scan result has
  the address of the client, compared in upper case, it raises the \<open>BleakError\<close>
  "Device with address ... was not found" and has made no call but the scan. If a device
  matches, it takes the first match, connects to its peripheral and, when that call and the
  discovery that follows succeed, returns \<open>True\<close> in the state \<^verbatim>\<open>get_services\<close> left.
\<close>

theorem connect_finds_device:
  assumes "scan_for_devices 10 na s = (Inr devices, s1)"
  shows "trace s1 = trace s @ [ScanForPeripherals 10]
       \<and> (filter (\<lambda>x. upper (dev_address x) = upper (address s)) devices = [] \<longrightarrow>
            connect na s =
              (Inl (BleakError (''Device with address '' @ address s @ '' was not found'')), s1))
       \<and> (filter (\<lambda>x. upper (dev_address x) = upper (address s)) devices = d # others
            \<and> connect_peripheral na (details d) = Inr ()
            \<and> get_services na
                ((record_event (ConnectPeripheral (details d))
                    (s1\<lparr>device_info := Some (details d)\<rparr>))\<lparr>isConnected := True\<rparr>) = (Inr c, s3) \<longrightarrow>
            connect na s = (Inr True, s3))"
proof -
  from assms scan_for_devices_state [of 10 na s]
  have s1: "s1 = record_event (ScanForPeripherals 10) s" by simp
  then have a: "address s1 = address s" and t: "trace s1 = trace s @ [ScanForPeripherals 10]"
    by (simp_all add: record_event_def)
  show ?thesis
    using t by (simp add: connect_def assms a Let_def)
qed

theorem connect_finds_device_witness:
  "connect example_native (BleakClientCoreBluetooth ''cd-02'') =
     (Inl (BleakError ''Device with address cd-02 was not found''),
      record_event (ScanForPeripherals 10) (BleakClientCoreBluetooth ''cd-02''))
   \<and> fst (connect example_native (BleakClientCoreBluetooth ''ab-01'')) = Inr True
   \<and> trace (snd (connect example_native (BleakClientCoreBluetooth ''ab-01''))) =
       [ScanForPeripherals 10, ConnectPeripheral heart_monitor, DiscoverServices,
        DiscoverCharacteristics svc_180D, AddService (BleakGATTServiceCoreBluetooth svc_180D),
        DiscoverDescriptors chr_2A37, AddCharacteristic (BleakGATTCharacteristicCoreBluetooth chr_2A37),
        AddDescriptor (BleakGATTDescriptorCoreBluetooth dsc_42 ''2A37'')]"
proof -
  let ?dev = "make_device heart_monitor [76, 0, 2, 21]"
  let ?a = "BleakClientCoreBluetooth ''cd-02''"
  let ?b = "BleakClientCoreBluetooth ''ab-01''"
  let ?a1 = "record_event (ScanForPeripherals 10) ?a"
  let ?b1 = "record_event (ScanForPeripherals 10) ?b"
  let ?b2 = "(record_event (ConnectPeripheral (details ?dev))
                (?b1\<lparr>device_info := Some (details ?dev)\<rparr>))\<lparr>isConnected := True\<rparr>"
  have scan_a: "scan_for_devices 10 example_native ?a = (Inr [?dev], ?a1)"
    by code_simp
  have none: "filter (\<lambda>x. upper (dev_address x) = upper (address ?a)) [?dev] = []"
    by code_simp
  have addr_a: "address ?a = ''cd-02''"
    by (simp add: BleakClientCoreBluetooth_def)
  have scan_b: "scan_for_devices 10 example_native ?b = (Inr [?dev], ?b1)"
    by code_simp
  have found: "filter (\<lambda>x. upper (dev_address x) = upper (address ?b)) [?dev] = ?dev # []"
    by code_simp
  have conn: "connect_peripheral example_native (details ?dev) = Inr ()"
    by (simp add: example_native_def)
  have disc: "get_services example_native ?b2 = (Inr example_collection, snd (get_services example_native ?b2))"
    by code_simp
  have tr: "trace (snd (get_services example_native ?b2)) =
       [ScanForPeripherals 10, ConnectPeripheral heart_monitor, DiscoverServices,
        DiscoverCharacteristics svc_180D, AddService (BleakGATTServiceCoreBluetooth svc_180D),
        DiscoverDescriptors chr_2A37, AddCharacteristic (BleakGATTCharacteristicCoreBluetooth chr_2A37),
        AddDescriptor (BleakGATTDescriptorCoreBluetooth dsc_42 ''2A37'')]"
    by code_simp
  from connect_finds_device [OF scan_a] none addr_a
  have first: "connect example_native ?a =
     (Inl (BleakError ''Device with address cd-02 was not found''), ?a1)"
    by simp
  from connect_finds_device [OF scan_b, where d = ?dev and others = "[]" and c = example_collection
      and ?s3.0 = "snd (get_services example_native ?b2)"] found conn disc
  have second: "connect example_native ?b = (Inr True, snd (get_services example_native ?b2))"
    by blast
  from first second tr show ?thesis by simp
qed

text \<open>
  Claim C10. When the delegate holds an advertisement entry for each peripheral,
  \<^verbatim>\<open>scan_for_devices\<close> returns one device for each scanned peripheral whose advertisement
  has manufacturer data that is not empty, in scan order, and none for the others. So if
  every scanned peripheral that has the address of the client advertises without
  manufacturer data, \<^verbatim>\<open>connect\<close> raises "Device with address ... was not found" although
  the scan reported the peripheral.
\<close>

theorem scan_keeps_manufacturer_data_only:
  assumes "scanForPeripherals na t = Inr (peripherals, ads)"
    and "length peripherals \<le> length ads"
  shows "fst (scan_for_devices t na s) =
           Inr (map (\<lambda>(p, a). make_device p (the (a manufacturer_key)))
                  (filter (\<lambda>(p, a). a manufacturer_key \<noteq> None \<and> a manufacturer_key \<noteq> Some [])
                     (zip peripherals ads)))
       \<and> (t = 10 \<and> list_all (\<lambda>(p, a). upper (peripheral_identifier p) = upper (address s) \<longrightarrow>
                                  a manufacturer_key = None) (zip peripherals ads) \<longrightarrow>
            connect na s =
              (Inl (BleakError (''Device with address '' @ address s @ '' was not found'')),
               record_event (ScanForPeripherals 10) s))"
proof -
  let ?kept = "filter (\<lambda>(p, a). a manufacturer_key \<noteq> None \<and> a manufacturer_key \<noteq> Some [])
                 (zip peripherals ads)"
  let ?devices = "map (\<lambda>(p, a). make_device p (the (a manufacturer_key))) ?kept"
  from assms(2) have "scan_loop ads 0 peripherals [] = Inr ?devices"
    by (simp add: scan_loop_filter)
  with assms(1) have scan: "scan_for_devices t na s = (Inr ?devices, record_event (ScanForPeripherals t) s)"
    by (simp add: scan_for_devices_def Let_def)
  have "connect na s =
          (Inl (BleakError (''Device with address '' @ address s @ '' was not found'')),
           record_event (ScanForPeripherals 10) s)"
    if ten: "t = 10"
      and silent: "list_all (\<lambda>(p, a). upper (peripheral_identifier p) = upper (address s) \<longrightarrow>
                                  a manufacturer_key = None) (zip peripherals ads)"
  proof -
    have "filter (\<lambda>x. upper (dev_address x) = upper (address s)) ?devices = []"
      using silent by (auto simp: filter_empty_conv list_all_iff dev_address_make_device)
    moreover have "address (record_event (ScanForPeripherals 10) s) = address s"
      by (simp add: record_event_def)
    ultimately show ?thesis
      using scan ten by (simp add: connect_def)
  qed
  with scan show ?thesis by simp
qed

theorem scan_keeps_manufacturer_data_only_witness:
  "fst (scan_for_devices 10 example_native (BleakClientCoreBluetooth ''cd-02'')) =
     Inr [make_device heart_monitor [76, 0, 2, 21]]
   \<and> make_device heart_monitor [76, 0, 2, 21] =
       \<lparr>dev_address = ''AB-01'', dev_name = ''HRM'', details = heart_monitor,
        manufacturer_data = [(76, ''0215'')]\<rparr>
   \<and> peripheral_identifier silent_sensor = ''CD-02''
   \<and> connect example_native (BleakClientCoreBluetooth ''cd-02'') =
       (Inl (BleakError ''Device with address cd-02 was not found''),
        record_event (ScanForPeripherals 10) (BleakClientCoreBluetooth ''cd-02''))"
proof -
  let ?ps = "[heart_monitor, silent_sensor]"
  let ?ads = "[[manufacturer_key \<mapsto> [76, 0, 2, 21]], Map.empty] :: advertisement_data list"
  let ?s = "BleakClientCoreBluetooth ''cd-02''"
  have scan: "scanForPeripherals example_native 10 = Inr (?ps, ?ads)"
    by (simp add: example_native_def)
  have len: "length ?ps \<le> length ?ads"
    by simp
  have silent: "list_all (\<lambda>(p, a). upper (peripheral_identifier p) = upper (address ?s) \<longrightarrow>
                            a manufacturer_key = None) (zip ?ps ?ads)"
    by code_simp
  have kept: "map (\<lambda>(p, a). make_device p (the (a manufacturer_key)))
                (filter (\<lambda>(p, a). a manufacturer_key \<noteq> None \<and> a manufacturer_key \<noteq> Some [])
                   (zip ?ps ?ads)) = [make_device heart_monitor [76, 0, 2, 21]]"
    by (simp add: manufacturer_key_def)
  have dev: "make_device heart_monitor [76, 0, 2, 21] =
       \<lparr>dev_address = ''AB-01'', dev_name = ''HRM'', details = heart_monitor,
        manufacturer_data = [(76, ''0215'')]\<rparr>"
    by code_simp
  have addr: "address ?s = ''cd-02''"
    by (simp add: BleakClientCoreBluetooth_def)
  have ident: "peripheral_identifier silent_sensor = ''CD-02''"
    by (simp add: silent_sensor_def)
  from scan_keeps_manufacturer_data_only [OF scan len, of ?s] silent kept dev addr ident
  show ?thesis by simp
qed

section \<open>The server as a context manager\<close>

text \<open>
  Claim C9. \<^verbatim>\<open>__aenter__\<close> runs \<^verbatim>\<open>start\<close>: it leaves the state \<^verbatim>\<open>start\<close> leaves,
  raises what \<^verbatim>\<open>start\<close> raises and otherwise yields the server. \<^verbatim>\<open>__aexit__\<close> runs
  \<^verbatim>\<open>stop\<close> whatever exception information it is given: it leaves the state \<^verbatim>\<open>stop\<close>
  leaves, and returns false when \<^verbatim>\<open>stop\<close> returns. \<^verbatim>\<open>start\<close> and \<^verbatim>\<open>stop\<close> run the
  backend's method on the backend state and are entered in the list of calls. In
  \<^verbatim>\<open>async with\<close>, once \<^verbatim>\<open>__aenter__\<close> has returned, the final state is the one
  \<^verbatim>\<open>stop\<close> leaves when run after the body, which ran in the state after \<^verbatim>\<open>start\<close>,
  whether the body returned a value or raised.
\<close>

theorem server_context_manager:
  "snd (aenter be sv) = snd (start be sv)
   \<and> fst (aenter be sv) = (case fst (start be sv) of Inl e \<Rightarrow> Inl e | Inr ok \<Rightarrow> Inr ())
   \<and> snd (aexit be exc sv) = snd (stop be sv)
   \<and> fst (aexit be exc sv) = (case fst (stop be sv) of Inl e \<Rightarrow> Inl e | Inr ok \<Rightarrow> Inr False)
   \<and> start be sv =
       (fst (start_impl be (backend_state sv)),
        sv\<lparr>backend_state := snd (start_impl be (backend_state sv)),
           server_calls := server_calls sv @ [StartCalled]\<rparr>)
   \<and> stop be sv =
       (fst (stop_impl be (backend_state sv)),
        sv\<lparr>backend_state := snd (stop_impl be (backend_state sv)),
           server_calls := server_calls sv @ [StopCalled]\<rparr>)
   \<and> (fst (aenter be sv) = Inr () \<longrightarrow>
        snd (async_with be body sv) = snd (stop be (snd (body (snd (start be sv)))))
        \<and> server_calls (snd (async_with be body sv)) =
            server_calls (snd (body (snd (aenter be sv)))) @ [StopCalled])
   \<and> server_calls (snd (aenter be sv)) = server_calls sv @ [StartCalled]
   \<and> server_calls (snd (aexit be exc sv)) = server_calls sv @ [StopCalled]"
proof -
  have start_eq: "start be sv =
       (fst (start_impl be (backend_state sv)),
        sv\<lparr>backend_state := snd (start_impl be (backend_state sv)),
           server_calls := server_calls sv @ [StartCalled]\<rparr>)" for sv
    by (simp add: start_def split: prod.splits)
  have stop_eq: "stop be sv =
       (fst (stop_impl be (backend_state sv)),
        sv\<lparr>backend_state := snd (stop_impl be (backend_state sv)),
           server_calls := server_calls sv @ [StopCalled]\<rparr>)" for sv
    by (simp add: stop_def split: prod.splits)
  have enter_state: "snd (aenter be sv) = snd (start be sv)" for sv
    by (simp add: aenter_def split: prod.splits sum.splits)
  have enter_result: "fst (aenter be sv) = (case fst (start be sv) of Inl e \<Rightarrow> Inl e | Inr ok \<Rightarrow> Inr ())"
    by (simp add: aenter_def split: prod.splits sum.splits)
  have exit_state: "snd (aexit be exc sv) = snd (stop be sv)" for exc sv
    by (simp add: aexit_def split: prod.splits sum.splits)
  have exit_result: "fst (aexit be exc sv) = (case fst (stop be sv) of Inl e \<Rightarrow> Inl e | Inr ok \<Rightarrow> Inr False)"
    by (simp add: aexit_def split: prod.splits sum.splits)
  have calls_stop: "server_calls (snd (stop be sv)) = server_calls sv @ [StopCalled]" for sv
    by (simp add: stop_eq)
  have calls_start: "server_calls (snd (start be sv)) = server_calls sv @ [StartCalled]" for sv
    by (simp add: start_eq)
  have with_state: "snd (async_with be body sv) = snd (stop be (snd (body (snd (start be sv)))))"
    if ok: "fst (aenter be sv) = Inr ()"
  proof -
    obtain sv1 where e: "aenter be sv = (Inr (), sv1)"
      using ok by (cases "aenter be sv") simp
    with enter_state [of sv] have sv1: "sv1 = snd (start be sv)" by simp
    obtain r sv2 where b: "body sv1 = (r, sv2)"
      by (cases "body sv1")
    show ?thesis
    proof (cases r)
      case (Inl x)
      obtain q sv3 where x: "aexit be (Some x) sv2 = (q, sv3)"
        by (cases "aexit be (Some x) sv2")
      with exit_state [of "Some x" sv2] have "sv3 = snd (stop be sv2)" by simp
      with e b Inl x sv1 show ?thesis
        by (simp add: async_with_def split: sum.splits)
    next
      case (Inr v)
      obtain q sv3 where x: "aexit be None sv2 = (q, sv3)"
        by (cases "aexit be None sv2")
      with exit_state [of None sv2] have "sv3 = snd (stop be sv2)" by simp
      with e b Inr x sv1 show ?thesis
        by (simp add: async_with_def split: sum.splits)
    qed
  qed
  have with_calls: "server_calls (snd (async_with be body sv)) =
            server_calls (snd (body (snd (aenter be sv)))) @ [StopCalled]"
    if ok: "fst (aenter be sv) = Inr ()"
    by (simp add: with_state [OF ok] calls_stop enter_state)
  show ?thesis
    using start_eq [of sv] stop_eq [of sv] enter_state [of sv] enter_result exit_state [of exc sv]
      exit_result with_state with_calls calls_start [of sv] calls_stop [of sv]
    by (intro conjI impI) simp_all
qed

theorem server_context_manager_witness:
  "fst (aenter example_backend new_server) = Inr ()
   \<and> snd (aenter example_backend new_server) = \<lparr>backend_state = 1, server_calls = [StartCalled]\<rparr>
   \<and> snd (aexit example_backend (Some (BleakError ''boom'')) new_server) =
       \<lparr>backend_state = 10, server_calls = [StopCalled]\<rparr>
   \<and> async_with example_backend body_completes new_server =
       (Inr (Some 5), \<lparr>backend_state = 11, server_calls = [StartCalled, StopCalled]\<rparr>)
   \<and> async_with example_backend body_raises new_server =
       (Inl (BleakError ''boom''), \<lparr>backend_state = 11, server_calls = [StartCalled, StopCalled]\<rparr>)"
proof -
  have ok: "fst (aenter example_backend new_server) = Inr ()"
    by code_simp
  have s1: "snd (start example_backend new_server) = \<lparr>backend_state = 1, server_calls = [StartCalled]\<rparr>"
    by code_simp
  have s2: "snd (stop example_backend new_server) = \<lparr>backend_state = 10, server_calls = [StopCalled]\<rparr>"
    by code_simp
  have b1: "snd (stop example_backend (snd (body_completes (snd (start example_backend new_server))))) =
              \<lparr>backend_state = 11, server_calls = [StartCalled, StopCalled]\<rparr>"
    by code_simp
  have b2: "snd (stop example_backend (snd (body_raises (snd (start example_backend new_server))))) =
              \<lparr>backend_state = 11, server_calls = [StartCalled, StopCalled]\<rparr>"
    by code_simp
  have r1: "fst (async_with example_backend body_completes new_server) = Inr (Some 5)"
    by code_simp
  have r2: "fst (async_with example_backend body_raises new_server) = Inl (BleakError ''boom'')"
    by code_simp
  from server_context_manager [of example_backend new_server "Some (BleakError ''boom'')" body_completes]
  have c: "snd (aenter example_backend new_server) = snd (start example_backend new_server)"
    and x: "snd (aexit example_backend (Some (BleakError ''boom'')) new_server) = snd (stop example_backend new_server)"
    and w1: "snd (async_with example_backend body_completes new_server) =
            snd (stop example_backend (snd (body_completes (snd (start example_backend new_server)))))"
    using ok by blast+
  from server_context_manager [of example_backend new_server None body_raises]
  have w2: "snd (async_with example_backend body_raises new_server) =
            snd (stop example_backend (snd (body_raises (snd (start example_backend new_server)))))"
    using ok by blast
  from ok c x w1 w2 s1 s2 b1 b2 r1 r2 show ?thesis
    by (simp add: prod_eq_iff)
qed

end
